theory Spec2Isabelle
  imports Main "HOL-Library.Sublist"
begin

section \<open>Python values and string primitives\<close>

text \<open>
  The program is one Python script, \<^verbatim>\<open>px-diag-analyzer.py\<close>. Python strings are
  sequences of code points; here a \<^typ>\<open>string\<close> is a list of 8-bit characters read
  as the code points U+0000 .. U+00FF (Latin-1), and the character classes below are
  Python's classes restricted to that range. Text beyond Latin-1 is outside the model.
\<close>

datatype error =
    FileNotFoundError
  | JSONDecodeError
  | KeyError string
  | TypeError
  | AttributeError
  | ValueError
  | ReError
  | EOFError

text \<open>
  What \<^verbatim>\<open>json.load\<close> returns. Floating-point numbers are left out: no field
  the script reads is fractional, and their formatting is not modelled.
  An object is an association list in insertion order, read with \<^const>\<open>map_of\<close>.
\<close>

datatype json =
    JNull
  | JBool bool
  | JInt int
  | JStr string
  | JList "json list"
  | JObj "(string \<times> json) list"

text \<open>\<^verbatim>\<open>str.isspace\<close> on one character: the characters that \<^verbatim>\<open>split()\<close>,
  \<^verbatim>\<open>strip()\<close> and \<^verbatim>\<open>rstrip()\<close> treat as whitespace.\<close>

definition is_space :: "char \<Rightarrow> bool" where
  "is_space c =
     (let n = (of_char c :: nat)
      in (9 \<le> n \<and> n \<le> 13) \<or> (28 \<le> n \<and> n \<le> 32) \<or> n = 133 \<or> n = 160)"

text \<open>\<^verbatim>\<open>str.isdigit\<close> on one character: the decimal digits and, in Latin-1, the
  superscript digits U+00B2, U+00B3 and U+00B9.\<close>

definition is_digit_char :: "char \<Rightarrow> bool" where
  "is_digit_char c =
     (let n = (of_char c :: nat)
      in (48 \<le> n \<and> n \<le> 57) \<or> n = 178 \<or> n = 179 \<or> n = 185)"

text \<open>\<^verbatim>\<open>p.isdigit()\<close>: false on the empty string.\<close>

definition isdigit :: "string \<Rightarrow> bool" where
  "isdigit s = (s \<noteq> [] \<and> list_all is_digit_char s)"

text \<open>\<^verbatim>\<open>s.split()\<close>: the maximal runs of non-whitespace characters, in order;
  \<open>cur\<close> is the token being read.\<close>

fun split_aux :: "string \<Rightarrow> string \<Rightarrow> string list" where
  "split_aux [] cur = (if cur = [] then [] else [cur])"
| "split_aux (c # cs) cur =
     (if is_space c
      then (if cur = [] then split_aux cs [] else cur # split_aux cs [])
      else split_aux cs (cur @ [c]))"

definition str_split :: "string \<Rightarrow> string list" where
  "str_split s = split_aux s []"

text \<open>\<^verbatim>\<open>sep.join(parts)\<close>.\<close>

fun str_join :: "string \<Rightarrow> string list \<Rightarrow> string" where
  "str_join sep [] = []"
| "str_join sep [p] = p"
| "str_join sep (p # q # ps) = p @ sep @ str_join sep (q # ps)"

definition rstrip :: "string \<Rightarrow> string" where
  "rstrip s = rev (dropWhile is_space (rev s))"

definition strip :: "string \<Rightarrow> string" where
  "strip s = dropWhile is_space (rstrip s)"

text \<open>\<^verbatim>\<open>str(n)\<close> for an integer.\<close>

fun show_nat :: "nat \<Rightarrow> string" where
  "show_nat n =
     (if n < 10 then [char_of (48 + n)]
      else show_nat (n div 10) @ [char_of (48 + n mod 10)])"

declare show_nat.simps [simp del]

definition show_int :: "int \<Rightarrow> string" where
  "show_int i = (if i < 0 then CHR ''-'' # show_nat (nat (- i)) else show_nat (nat i))"

section \<open>Command parsing\<close>

text \<open>\<^verbatim>\<open>parse_command\<close> (lines 109-115).\<close>

definition parse_command :: "string \<Rightarrow> string \<times> bool \<times> string option" where
  "parse_command cmd =
     (let parts = str_split cmd;
          is_json = (''-j'' \<in> set parts);
          parts = filter (\<lambda>p. p \<noteq> ''-j'') parts;
          vol_id = find isdigit parts;
          base_cmd = str_join '' '' (filter (\<lambda>p. \<not> isdigit p) parts)
      in (base_cmd, is_json, vol_id))"

section \<open>Python operations on loaded values\<close>

text \<open>
  Library behaviour that the script calls and that is not fixed by the script itself is a
  parameter of the model: \<^verbatim>\<open>re.search(pattern, line)\<close> (\<open>None\<close> when the
  pattern does not compile), \<^verbatim>\<open>str.upper\<close> (whose results can leave Latin-1),
  and \<^verbatim>\<open>int(s)\<close> on a string (\<open>None\<close> for \<^verbatim>\<open>ValueError\<close>).
\<close>

record pylib =
  re_search :: "string \<Rightarrow> string \<Rightarrow> bool option"
  str_upper :: "string \<Rightarrow> string"
  int_of_str :: "string \<Rightarrow> int option"

text \<open>Sequencing of computations that may raise: the first error wins.\<close>

definition bind :: "error + 'a \<Rightarrow> ('a \<Rightarrow> error + 'b) \<Rightarrow> error + 'b" where
  "bind m f = (case m of Inl e \<Rightarrow> Inl e | Inr x \<Rightarrow> f x)"

fun sequence :: "(error + 'a) list \<Rightarrow> error + 'a list" where
  "sequence [] = Inr []"
| "sequence (m # ms) = bind m (\<lambda>x. bind (sequence ms) (\<lambda>xs. Inr (x # xs)))"

text \<open>Truth value of an object, as \<^verbatim>\<open>if x\<close> and \<^verbatim>\<open>not x\<close> take it.\<close>

fun truthy :: "json \<Rightarrow> bool" where
  "truthy JNull = False"
| "truthy (JBool b) = b"
| "truthy (JInt i) = (i \<noteq> 0)"
| "truthy (JStr s) = (s \<noteq> [])"
| "truthy (JList xs) = (xs \<noteq> [])"
| "truthy (JObj kvs) = (kvs \<noteq> [])"

text \<open>\<^verbatim>\<open>x[key]\<close> with a string key: only a dict accepts it.\<close>

fun subscript :: "json \<Rightarrow> string \<Rightarrow> error + json" where
  "subscript (JObj kvs) k =
     (case map_of kvs k of None \<Rightarrow> Inl (KeyError k) | Some x \<Rightarrow> Inr x)"
| "subscript _ k = Inl TypeError"

text \<open>\<^verbatim>\<open>x.get(key, default)\<close>: only a dict has the method.\<close>

fun get :: "json \<Rightarrow> string \<Rightarrow> json \<Rightarrow> error + json" where
  "get (JObj kvs) k d = Inr (case map_of kvs k of None \<Rightarrow> d | Some x \<Rightarrow> x)"
| "get _ k d = Inl AttributeError"

text \<open>What a \<^verbatim>\<open>for\<close> loop, \<^verbatim>\<open>enumerate\<close> or \<^verbatim>\<open>zip\<close> iterates over.\<close>

fun iter :: "json \<Rightarrow> error + json list" where
  "iter (JList xs) = Inr xs"
| "iter (JObj kvs) = Inr (map (\<lambda>kv. JStr (fst kv)) kvs)"
| "iter (JStr s) = Inr (map (\<lambda>c. JStr [c]) s)"
| "iter _ = Inl TypeError"

text \<open>\<^verbatim>\<open>"literal" + x\<close>: concatenation accepts a string only.\<close>

fun str_add :: "string \<Rightarrow> json \<Rightarrow> error + string" where
  "str_add p (JStr s) = Inr (p @ s)"
| "str_add p _ = Inl TypeError"

text \<open>\<^verbatim>\<open>repr\<close> of a string: quote selection and escapes.\<close>

definition hex_digit :: "nat \<Rightarrow> char" where
  "hex_digit n = (if n < 10 then char_of (48 + n) else char_of (87 + n))"

definition repr_char :: "char \<Rightarrow> char \<Rightarrow> string" where
  "repr_char q c =
     (let n = (of_char c :: nat)
      in if c = q \<or> c = CHR 0x5C then [CHR 0x5C, c]
         else if n = 9 then [CHR 0x5C, CHR ''t'']
         else if n = 10 then [CHR 0x5C, CHR ''n'']
         else if n = 13 then [CHR 0x5C, CHR ''r'']
         else if n < 32 \<or> (127 \<le> n \<and> n \<le> 160) \<or> n = 173
              then [CHR 0x5C, CHR ''x'', hex_digit (n div 16), hex_digit (n mod 16)]
         else [c])"

definition repr_str :: "string \<Rightarrow> string" where
  "repr_str s =
     (let q = (if CHR 0x27 \<in> set s \<and> CHR 0x22 \<notin> set s then CHR 0x22 else CHR 0x27)
      in [q] @ concat (map (repr_char q) s) @ [q])"

text \<open>\<^verbatim>\<open>repr(x)\<close> and \<^verbatim>\<open>str(x)\<close>, the latter being what an f-string field
  without a format specification inserts.\<close>

fun py_repr :: "json \<Rightarrow> string" where
  "py_repr JNull = ''None''"
| "py_repr (JBool b) = (if b then ''True'' else ''False'')"
| "py_repr (JInt i) = show_int i"
| "py_repr (JStr s) = repr_str s"
| "py_repr (JList xs) = ''['' @ str_join '', '' (map py_repr xs) @ '']''"
| "py_repr (JObj kvs) =
     ''{'' @ str_join '', '' (map (\<lambda>kv. repr_str (fst kv) @ '': '' @ py_repr (snd kv)) kvs) @ ''}''"

fun py_str :: "json \<Rightarrow> string" where
  "py_str (JStr s) = s"
| "py_str x = py_repr x"

text \<open>An f-string field with a width, \<^verbatim>\<open>{x:23}\<close>: a string is padded on the
  right, an integer (and a bool, formatted as the integer it is) on the left, and
  \<^verbatim>\<open>None\<close>, lists and dicts reject a format specification.\<close>

definition ljust :: "string \<Rightarrow> nat \<Rightarrow> string" where
  "ljust s w = s @ replicate (w - length s) CHR '' ''"

definition rjust :: "string \<Rightarrow> nat \<Rightarrow> string" where
  "rjust s w = replicate (w - length s) CHR '' '' @ s"

fun py_format :: "json \<Rightarrow> nat \<Rightarrow> error + string" where
  "py_format (JStr s) w = Inr (ljust s w)"
| "py_format (JInt i) w = Inr (rjust (show_int i) w)"
| "py_format (JBool b) w = Inr (rjust (if b then ''1'' else ''0'') w)"
| "py_format _ w = Inl TypeError"

text \<open>\<^verbatim>\<open>int(x)\<close>.\<close>

fun py_int :: "pylib \<Rightarrow> json \<Rightarrow> error + int" where
  "py_int lib (JInt i) = Inr i"
| "py_int lib (JBool b) = Inr (if b then 1 else 0)"
| "py_int lib (JStr s) = (case int_of_str lib s of None \<Rightarrow> Inl ValueError | Some i \<Rightarrow> Inr i)"
| "py_int lib _ = Inl TypeError"

section \<open>The diagnostic bundle and the artifact streamer\<close>

text \<open>
  The extracted bundle, as the session sees it: the \<^verbatim>\<open>misc\<close> and
  \<^verbatim>\<open>etc/pwx\<close> folders found by \<^verbatim>\<open>find_misc_folder\<close> and
  \<^verbatim>\<open>find_etc_folder\<close> (\<open>None\<close> when the search returns \<^verbatim>\<open>None\<close>),
  each a map from artifact name to the text of the file, and the volume dataset
  \<^verbatim>\<open>misc/px-volumes.out\<close>, given by what \<^verbatim>\<open>open\<close> and
  \<^verbatim>\<open>json.load\<close> make of it.
\<close>

type_synonym folder = "string \<rightharpoonup> string"

datatype dataset = Missing | Malformed | Dataset json

record diag =
  misc :: "folder option"
  etc :: "folder option"
  px_volumes :: dataset

text \<open>\<^verbatim>\<open>os.path.join(root, name)\<close> raises \<^verbatim>\<open>TypeError\<close> on a root that is
  \<^verbatim>\<open>None\<close>; \<^verbatim>\<open>open(path)\<close> raises \<^verbatim>\<open>FileNotFoundError\<close> on a
  missing file. A path is the folder with the name.\<close>

type_synonym path = "folder \<times> string"

definition path_join :: "folder option \<Rightarrow> string \<Rightarrow> error + path" where
  "path_join root name = (case root of None \<Rightarrow> Inl TypeError | Some d \<Rightarrow> Inr (d, name))"

definition open_file :: "path \<Rightarrow> error + string" where
  "open_file p = (case fst p (snd p) of None \<Rightarrow> Inl FileNotFoundError | Some t \<Rightarrow> Inr t)"

text \<open>Iterating over an open text file: the lines, each with its newline.\<close>

fun readlines_aux :: "string \<Rightarrow> string \<Rightarrow> string list" where
  "readlines_aux [] cur = (if cur = [] then [] else [cur])"
| "readlines_aux (c # cs) cur =
     (if c = CHR 0x0A then (cur @ [c]) # readlines_aux cs [] else readlines_aux cs (cur @ [c]))"

definition readlines :: "string \<Rightarrow> string list" where
  "readlines t = readlines_aux t []"

text \<open>What the session does that can be observed: the prompt, a \<^verbatim>\<open>print\<close> call
  with its argument, a \<^verbatim>\<open>print(json.dumps(x, indent=2))\<close> call with \<open>x\<close>, and
  the traffic with the pager process.\<close>

datatype event =
    Prompt
  | Print string
  | Print_json json
  | Pager_open string
  | Pager_write string
  | Pager_wait

text \<open>The body of the filtering loop of \<^verbatim>\<open>stream_file\<close> (lines 102-107) for one
  line: whether the line is printed.\<close>

definition keep_line :: "pylib \<Rightarrow> string option \<Rightarrow> string \<Rightarrow> error + bool" where
  "keep_line lib pipe line =
     (case pipe of
        None \<Rightarrow> Inr True
      | Some p \<Rightarrow>
          if p = [] then Inr True
          else if prefix ''grep '' p \<and> \<not> sublist (strip (drop 5 p)) line then Inr False
          else if prefix ''egrep '' p then
            (case re_search lib (strip (drop 6 p)) line of
               None \<Rightarrow> Inl ReError
             | Some m \<Rightarrow> Inr m)
          else Inr True)"

fun stream_lines :: "pylib \<Rightarrow> string option \<Rightarrow> string list \<Rightarrow> event list \<times> error option" where
  "stream_lines lib pipe [] = ([], None)"
| "stream_lines lib pipe (line # rest) =
     (case keep_line lib pipe line of
        Inl e \<Rightarrow> ([], Some e)
      | Inr k \<Rightarrow>
          (let r = stream_lines lib pipe rest
           in if k then (Print (rstrip line) # fst r, snd r) else r))"

text \<open>\<^verbatim>\<open>stream_file\<close> (lines 90-107): with \<^verbatim>\<open>less\<close> or \<^verbatim>\<open>more\<close> the pager
  is started before the file is opened and receives every line.\<close>

definition pager_of :: "string option \<Rightarrow> string option" where
  "pager_of pipe =
     (case pipe of
        None \<Rightarrow> None
      | Some p \<Rightarrow> if p = ''less'' \<or> p = ''more'' then Some p else None)"

definition stream_file :: "pylib \<Rightarrow> path \<Rightarrow> string option \<Rightarrow> event list \<times> error option" where
  "stream_file lib p pipe =
     (case pager_of pipe of
        Some pager \<Rightarrow>
          (case open_file p of
             Inl e \<Rightarrow> ([Pager_open pager], Some e)
           | Inr t \<Rightarrow> (Pager_open pager # map Pager_write (readlines t) @ [Pager_wait], None))
      | None \<Rightarrow>
          (case open_file p of
             Inl e \<Rightarrow> ([], Some e)
           | Inr t \<Rightarrow> stream_lines lib pipe (readlines t)))"

section \<open>The volume registry and renderer\<close>

text \<open>\<^verbatim>\<open>load_volumes\<close> (lines 117-119).\<close>

definition load_volumes :: "diag \<Rightarrow> error + json" where
  "load_volumes b =
     bind (path_join (misc b) ''px-volumes.out'') (\<lambda>p.
       case px_volumes b of
         Missing \<Rightarrow> Inl FileNotFoundError
       | Malformed \<Rightarrow> Inl JSONDecodeError
       | Dataset j \<Rightarrow> Inr j)"

text \<open>\<^verbatim>\<open>human_size\<close> (lines 121-126): the loop over the five units; falling out of
  the loop returns \<^verbatim>\<open>None\<close>.\<close>

fun human_size_loop :: "int \<Rightarrow> string list \<Rightarrow> string option" where
  "human_size_loop b [] = None"
| "human_size_loop b (u # us) =
     (if b < 1024 then Some (show_int b @ '' '' @ u) else human_size_loop (b div 1024) us)"

definition human_size :: "pylib \<Rightarrow> json \<Rightarrow> error + string option" where
  "human_size lib x =
     bind (py_int lib x) (\<lambda>b.
       Inr (human_size_loop b [''B'', ''KiB'', ''MiB'', ''GiB'', ''TiB'']))"

text \<open>\<^verbatim>\<open>yes_no\<close> (lines 128-129) and \<^verbatim>\<open>format_shared\<close> (lines 131-137).\<close>

definition yes_no :: "json \<Rightarrow> string" where
  "yes_no v = (if truthy v then ''yes'' else ''no'')"

definition format_shared :: "json \<Rightarrow> error + string" where
  "format_shared spec =
     bind (get spec ''sharedv4'' JNull) (\<lambda>s4.
       if truthy s4 then Inr ''v4''
       else bind (get spec ''shared'' JNull) (\<lambda>s.
         if truthy s then Inr ''yes'' else Inr ''no''))"

text \<open>The conditional expression of lines 148-152 and of line 180:
  \<^verbatim>\<open>prefix + v["attached_on"] if v["attached_on"] else "detached"\<close>.\<close>

definition attach_state :: "string \<Rightarrow> json \<Rightarrow> error + string" where
  "attach_state pre v =
     bind (subscript v ''attached_on'') (\<lambda>c.
       if truthy c then bind (subscript v ''attached_on'') (str_add pre)
       else Inr ''detached'')"

text \<open>A field of an f-string holding the result of \<^verbatim>\<open>human_size\<close>.\<close>

definition format_size :: "string option \<Rightarrow> nat \<Rightarrow> error + string" where
  "format_size r w = (case r of None \<Rightarrow> Inl TypeError | Some s \<Rightarrow> Inr (ljust s w))"

definition str_size :: "string option \<Rightarrow> string" where
  "str_size r = (case r of None \<Rightarrow> ''None'' | Some s \<Rightarrow> s)"

text \<open>\<^verbatim>\<open>x.upper()\<close>: only a string has the method.\<close>

fun upper :: "pylib \<Rightarrow> json \<Rightarrow> error + json" where
  "upper lib (JStr s) = Inr (JStr (str_upper lib s))"
| "upper lib _ = Inl AttributeError"

text \<open>One pass of the loop of \<^verbatim>\<open>volume_list\<close> (lines 147-168): the row printed for
  a record, the fields of the f-string evaluated from left to right.\<close>

definition volume_row :: "pylib \<Rightarrow> json \<Rightarrow> error + string" where
  "volume_row lib v =
     bind (attach_state ''attached on '' v) (\<lambda>state.
     bind (bind (subscript v ''spec'') format_shared) (\<lambda>shared.
     bind (bind (subscript v ''spec'') (\<lambda>spec. get spec ''encrypted'' (JBool False))) (\<lambda>enc.
     bind (bind (subscript v ''spec'') (\<lambda>spec. get spec ''proxy_volume'' (JBool False))) (\<lambda>prx.
     bind (sequence
       [bind (subscript v ''id'') (\<lambda>x. py_format x 23),
        bind (bind (subscript v ''locator'') (\<lambda>l. get l ''name'' (JStr []))) (\<lambda>x. py_format x 40),
        bind (bind (bind (subscript v ''spec'') (\<lambda>spec. subscript spec ''size'')) (human_size lib))
          (\<lambda>r. format_size r 7),
        bind (bind (subscript v ''spec'') (\<lambda>spec. subscript spec ''ha_level'')) (\<lambda>x. py_format x 3),
        Inr (ljust shared 7),
        Inr (ljust (yes_no enc) 9),
        Inr (ljust (yes_no prx) 12),
        bind (bind (bind (subscript v ''spec'') (\<lambda>spec. get spec ''cos'' (JStr []))) (upper lib))
          (\<lambda>x. py_format x 8),
        bind (subscript v ''status'') (\<lambda>x. Inr (py_str x @ '' - '' @ state))])
       (\<lambda>cols. Inr (str_join '' '' cols))))))"

text \<open>Printing in sequence: every line before the first error is printed, then the
  error is raised.\<close>

fun run_prints :: "(error + string) list \<Rightarrow> event list \<times> error option" where
  "run_prints [] = ([], None)"
| "run_prints (Inl e # ms) = ([], Some e)"
| "run_prints (Inr l # ms) = (let r = run_prints ms in (Print l # fst r, snd r))"

definition list_header :: string where
  "list_header =
     ''ID                      NAME                                    '' @
     ''SIZE    HA  SHARED ENCRYPTED PROXY-VOLUME IO_PRIORITY STATUS''"

text \<open>\<^verbatim>\<open>volume_list\<close> (lines 139-168).\<close>

definition volume_list :: "pylib \<Rightarrow> diag \<Rightarrow> event list \<times> error option" where
  "volume_list lib b =
     (case load_volumes b of
        Inl e \<Rightarrow> ([], Some e)
      | Inr vols \<Rightarrow>
          run_prints (Inr list_header #
            (case iter vols of
               Inl e \<Rightarrow> [Inl e]
             | Inr vs \<Rightarrow> map (volume_row lib) vs)))"

text \<open>The \<^verbatim>\<open>Labels\<close> line (lines 184-186), printed when the labels are not empty;
  \<^verbatim>\<open>labels.items()\<close> needs a dict.\<close>

definition labels_lines :: "json \<Rightarrow> (error + string) list" where
  "labels_lines v =
     (case bind (subscript v ''spec'') (\<lambda>spec. get spec ''volume_labels'' (JObj [])) of
        Inl e \<Rightarrow> [Inl e]
      | Inr labels \<Rightarrow>
          if truthy labels then
            (case labels of
               JObj kvs \<Rightarrow>
                 [Inr (''Labels                   :  '' @
                       str_join '','' (map (\<lambda>kv. fst kv @ ''='' @ py_str (snd kv)) kvs))]
             | _ \<Rightarrow> [Inl AttributeError])
          else [])"

text \<open>The \<^verbatim>\<open>Mount Options\<close> line (lines 187-189).\<close>

definition mount_lines :: "json \<Rightarrow> (error + string) list" where
  "mount_lines v =
     (case bind (bind (subscript v ''spec'') (\<lambda>spec. get spec ''mount_options'' (JObj [])))
                (\<lambda>m. get m ''options'' (JObj [])) of
        Inl e \<Rightarrow> [Inl e]
      | Inr mo \<Rightarrow>
          if truthy mo then
            (case mo of
               JObj kvs \<Rightarrow> [Inr (''Mount Options            :  '' @ str_join '','' (map fst kvs))]
             | _ \<Rightarrow> [Inl AttributeError])
          else [])"

text \<open>The replica-set block (lines 191-195): \<open>i\<close> is the index that
  \<^verbatim>\<open>enumerate\<close> gives to the first set of the list.\<close>

definition replica_set_lines :: "nat \<Rightarrow> json \<Rightarrow> (error + string) list" where
  "replica_set_lines i rs =
     Inr (''    Set '' @ show_nat i) #
     (case bind (subscript rs ''nodes'') (\<lambda>ns.
           bind (subscript rs ''pool_uuids'') (\<lambda>ps.
           bind (iter ns) (\<lambda>nl.
           bind (iter ps) (\<lambda>pl. Inr (zip nl pl))))) of
        Inl e \<Rightarrow> [Inl e]
      | Inr nps \<Rightarrow>
          concat (map (\<lambda>np. [Inr (''      Node           : '' @ py_str (fst np)),
                             Inr (''       Pool UUID     : '' @ py_str (snd np))]) nps))"

fun replica_lines :: "nat \<Rightarrow> json list \<Rightarrow> (error + string) list" where
  "replica_lines i [] = []"
| "replica_lines i (rs # rss) = replica_set_lines i rs @ replica_lines (Suc i) rss"

text \<open>The body of \<^verbatim>\<open>volume_inspect\<close> (lines 171-195), one entry for each
  \<^verbatim>\<open>print\<close> in the order of execution.\<close>

definition inspect_lines :: "pylib \<Rightarrow> json \<Rightarrow> (error + string) list" where
  "inspect_lines lib v =
      ([bind (subscript v ''id'') (\<lambda>x.
          Inr (''Volume                   :  '' @ py_str x)),
        bind (bind (subscript v ''locator'') (\<lambda>l. get l ''name'' (JStr []))) (\<lambda>x.
          Inr (''Name                     :  '' @ py_str x)),
        bind (bind (bind (subscript v ''spec'') (\<lambda>spec. subscript spec ''size'')) (human_size lib)) (\<lambda>r.
          Inr (''Size                     :  '' @ str_size r)),
        bind (bind (subscript v ''spec'') (\<lambda>spec. get spec ''format'' (JStr []))) (\<lambda>x.
          Inr (''Format                   :  '' @ py_str x)),
        bind (bind (subscript v ''spec'') (\<lambda>spec. subscript spec ''ha_level'')) (\<lambda>x.
          Inr (''HA                       :  '' @ py_str x)),
        bind (bind (subscript v ''spec'') (\<lambda>spec. get spec ''cos'' (JStr []))) (\<lambda>x.
          Inr (''IO Priority              :  '' @ py_str x)),
        bind (get v ''ctime'' (JStr [])) (\<lambda>x.
          Inr (''Creation time            :  '' @ py_str x)),
        bind (bind (subscript v ''spec'') format_shared) (\<lambda>x.
          Inr (''Shared                   :  '' @ x)),
        bind (subscript v ''status'') (\<lambda>x.
          Inr (''Status                   :  '' @ py_str x)),
        bind (attach_state ''attached: '' v) (\<lambda>x.
          Inr (''State                    :  '' @ x)),
        bind (get v ''detach_time'' (JStr [])) (\<lambda>x.
          Inr (''Last Attached            :  '' @ py_str x)),
        bind (get v ''device_path'' (JStr [])) (\<lambda>x.
          Inr (''Device Path              :  '' @ py_str x)),
        bind (bind (get v ''usage'' (JInt 0)) (human_size lib)) (\<lambda>r.
          Inr (''Bytes used               :  '' @ str_size r))]
       @ labels_lines v
       @ mount_lines v
       @ [Inr ''Replica sets on nodes:'']
       @ (case bind (get v ''replica_sets'' (JList [])) iter of
            Inl e \<Rightarrow> [Inl e]
          | Inr rss \<Rightarrow> replica_lines 0 rss))"

text \<open>\<^verbatim>\<open>volume_inspect\<close> (lines 170-195).\<close>

definition volume_inspect :: "pylib \<Rightarrow> json \<Rightarrow> event list \<times> error option" where
  "volume_inspect lib v = run_prints (inspect_lines lib v)"

section \<open>The session loop\<close>

text \<open>\<^verbatim>\<open>COMMAND_MAP\<close> (lines 10-28), in the order of the dict literal; a key occurs once,
  so \<^const>\<open>map_of\<close> is the lookup.\<close>

definition COMMAND_MAP :: "(string \<times> string \<times> string) list" where
  "COMMAND_MAP =
     [(''journalctl'', (''misc'', ''all-journalctl.out'')),
      (''lsblk'', (''misc'', ''lsblk.out'')),
      (''blkid'', (''misc'', ''blkid.out'')),
      (''ip addr show'', (''misc'', ''ip.out'')),
      (''mount'', (''misc'', ''mount.out'')),
      (''uptime'', (''misc'', ''uptime.out'')),
      (''date'', (''misc'', ''date.out'')),
      (''pxctl version'', (''misc'', ''px-version.out'')),
      (''pxctl status'', (''misc'', ''px-status.out'')),
      (''pxctl service kvdb members'', (''misc'', ''px-kvdb.out'')),
      (''pxctl sv k m'', (''misc'', ''px-kvdb.out'')),
      (''pxctl alerts show'', (''misc'', ''px-alerts.out'')),
      (''pxctl a s'', (''misc'', ''px-alerts.out'')),
      (''pxctl alerts show -j'', (''misc'', ''px-alerts-show.out'')),
      (''pxctl a s -j'', (''misc'', ''px-alerts-show.out'')),
      (''pxctl clouddrive list'', (''misc'', ''px-clouddrive-list.out'')),
      (''pxctl cd l'', (''misc'', ''px-clouddrive-list.out''))]"

text \<open>The text that \<^verbatim>\<open>print_help\<close> prints (lines 30-64): a triple-quoted string that
  begins with a newline and ends with one.\<close>

definition help_lines :: "string list" where
  "help_lines =
     [''Portworx pxctl (offline diag shell)'',
      [],
      ''Volume commands:'',
      ''  pxctl volume list | pxctl v l'',
      ''  pxctl volume list -j'',
      ''  pxctl volume list -j <volume-id>'',
      ''  pxctl volume inspect <volume-id> | pxctl v i <volume-id>'',
      ''  pxctl volume inspect -j <volume-id>'',
      [],
      ''Cluster / system:'',
      ''  pxctl status'',
      ''  pxctl version'',
      ''  pxctl service kvdb members | pxctl sv k m'',
      ''  pxctl alerts show'',
      ''  pxctl alerts show -j'',
      ''  pxctl clouddrive list'',
      ''  pxctl config show | pxctl config s'',
      ''  pxctl clusteruuid show | pxctl clusteruuid s'',
      [],
      ''Host commands:'',
      ''  journalctl'',
      ''  lsblk'',
      ''  blkid'',
      ''  ip addr show'',
      ''  mount'',
      ''  uptime'',
      ''  date'',
      [],
      ''Notes:'',
      ''  - '' @ [CHR 0x27] @ ''-j'' @ [CHR 0x27] @ '' may appear anywhere in the command'',
      ''  - Pipes supported: | grep | egrep | less | more'',
      ''  - Type '' @ [CHR 0x27] @ ''exit'' @ [CHR 0x27] @ '' or '' @ [CHR 0x27] @ ''quit'' @
        [CHR 0x27] @ '' to leave'']"

definition help_text :: string where
  "help_text = CHR 0x0A # concat (map (\<lambda>l. l @ [CHR 0x0A]) help_lines)"

text \<open>How one pass of the loop ends: with the next pass, with \<^verbatim>\<open>break\<close>, or with an
  exception, which nothing in \<^verbatim>\<open>main\<close> catches.\<close>

datatype status = Continue | Break | Raise error

definition finish :: "event list \<times> error option \<Rightarrow> event list \<times> status" where
  "finish r = (fst r, case snd r of None \<Rightarrow> Continue | Some e \<Rightarrow> Raise e)"

text \<open>The list comprehension of line 232:
  \<^verbatim>\<open>[v for v in vols if not vol_id or v["id"] == vol_id]\<close>.\<close>

fun select_volumes :: "json list \<Rightarrow> string option \<Rightarrow> error + json list" where
  "select_volumes [] vol_id = Inr []"
| "select_volumes (v # vs) vol_id =
     bind (case vol_id of
             None \<Rightarrow> Inr True
           | Some i \<Rightarrow> bind (subscript v ''id'') (\<lambda>x. Inr (x = JStr i))) (\<lambda>k.
     bind (select_volumes vs vol_id) (\<lambda>r. Inr (if k then v # r else r)))"

text \<open>Line 241: \<^verbatim>\<open>next((v for v in vols if v["id"] == vol_id), None)\<close>. The identifier
  is a string or \<^verbatim>\<open>None\<close>, and \<^verbatim>\<open>None\<close> equals \<^verbatim>\<open>None\<close> only.\<close>

definition id_equals :: "json \<Rightarrow> string option \<Rightarrow> bool" where
  "id_equals x vol_id = (case vol_id of None \<Rightarrow> x = JNull | Some i \<Rightarrow> x = JStr i)"

fun find_volume :: "json list \<Rightarrow> string option \<Rightarrow> error + json option" where
  "find_volume [] vol_id = Inr None"
| "find_volume (v # vs) vol_id =
     bind (subscript v ''id'') (\<lambda>x.
       if id_equals x vol_id then Inr (Some v) else find_volume vs vol_id)"

definition not_found_line :: "string option \<Rightarrow> string" where
  "not_found_line vol_id =
     ''Volume '' @ (case vol_id of None \<Rightarrow> ''None'' | Some i \<Rightarrow> i) @ '' not found''"

text \<open>The dispatch of \<^verbatim>\<open>main\<close> (lines 228-263) on a parsed command.\<close>

definition dispatch ::
  "pylib \<Rightarrow> diag \<Rightarrow> string \<Rightarrow> bool \<Rightarrow> string option \<Rightarrow> string option \<Rightarrow> event list \<times> status" where
  "dispatch lib b base_cmd is_json vol_id pipe =
     (if base_cmd = ''pxctl volume list'' \<or> base_cmd = ''pxctl v l'' then
        (case load_volumes b of
           Inl e \<Rightarrow> ([], Raise e)
         | Inr vols \<Rightarrow>
             if is_json then
               (case bind (iter vols) (\<lambda>vs. select_volumes vs vol_id) of
                  Inl e \<Rightarrow> ([], Raise e)
                | Inr sel \<Rightarrow> ([Print_json (JList sel)], Continue))
             else finish (volume_list lib b))
      else if base_cmd = ''pxctl volume inspect'' \<or> base_cmd = ''pxctl v i'' then
        (case load_volumes b of
           Inl e \<Rightarrow> ([], Raise e)
         | Inr vols \<Rightarrow>
             (case bind (iter vols) (\<lambda>vs. find_volume vs vol_id) of
                Inl e \<Rightarrow> ([], Raise e)
              | Inr None \<Rightarrow> ([Print (not_found_line vol_id)], Continue)
              | Inr (Some v) \<Rightarrow>
                  if \<not> truthy v then ([Print (not_found_line vol_id)], Continue)
                  else if is_json then ([Print_json v], Continue)
                  else finish (volume_inspect lib v)))
      else if base_cmd = ''pxctl config show'' \<or> base_cmd = ''pxctl config s'' then
        (case path_join (etc b) ''config.json'' of
           Inl e \<Rightarrow> ([], Raise e)
         | Inr p \<Rightarrow> finish (stream_file lib p None))
      else if base_cmd = ''pxctl clusteruuid show'' \<or> base_cmd = ''pxctl clusteruuid s'' then
        (case path_join (etc b) ''cluster_uuid'' of
           Inl e \<Rightarrow> ([], Raise e)
         | Inr p \<Rightarrow> finish (stream_file lib p None))
      else
        (case map_of COMMAND_MAP base_cmd of
           Some (loc, fname) \<Rightarrow>
             (case path_join (if loc = ''misc'' then misc b else etc b) fname of
                Inl e \<Rightarrow> ([], Raise e)
              | Inr p \<Rightarrow> finish (stream_file lib p pipe))
         | None \<Rightarrow> ([Print ''Unknown command''], Continue)))"

text \<open>Lines 221-224: \<^verbatim>\<open>cmd.split("|", 1)\<close> with both halves stripped.\<close>

definition split_pipe :: "string \<Rightarrow> string \<times> string option" where
  "split_pipe cmd =
     (if CHR ''|'' \<in> set cmd
      then (strip (takeWhile (\<lambda>c. c \<noteq> CHR ''|'') cmd),
            Some (strip (drop 1 (dropWhile (\<lambda>c. c \<noteq> CHR ''|'') cmd))))
      else (cmd, None))"

text \<open>One pass of the loop of \<^verbatim>\<open>main\<close> (lines 209-263) on the line that
  \<^verbatim>\<open>input\<close> returned.\<close>

definition exec_line :: "pylib \<Rightarrow> diag \<Rightarrow> string \<Rightarrow> event list \<times> status" where
  "exec_line lib b raw =
     (let cmd = strip raw
      in if cmd = [] then ([], Continue)
         else if cmd = ''exit'' \<or> cmd = ''quit'' then ([], Break)
         else if cmd = ''pxctl'' \<or> cmd = ''help'' \<or> cmd = ''?'' \<or> cmd = ''pxctl help''
                 \<or> cmd = ''pxctl --help''
           then ([Print help_text], Continue)
         else
           (case split_pipe cmd of
              (left, pipe) \<Rightarrow>
                (case parse_command left of
                   (base_cmd, is_json, vol_id) \<Rightarrow> dispatch lib b base_cmd is_json vol_id pipe)))"

text \<open>The loop of \<^verbatim>\<open>main\<close> (lines 207-266) over the lines that remain on standard
  input. \<^verbatim>\<open>input\<close> writes the prompt and raises \<^verbatim>\<open>EOFError\<close> when no line is
  left. The loop is left by \<^verbatim>\<open>break\<close> or by an exception. What is observed is the
  prompts and the output up to that point, and how the loop was left; the removal of the
  extracted directory by the \<^verbatim>\<open>finally\<close> clause is not among the events.\<close>

datatype outcome = Returned | Raised error

fun main_loop :: "pylib \<Rightarrow> diag \<Rightarrow> string list \<Rightarrow> event list \<times> outcome" where
  "main_loop lib b [] = ([Prompt], Raised EOFError)"
| "main_loop lib b (raw # rest) =
     (case exec_line lib b raw of
        (out, Continue) \<Rightarrow> (let r = main_loop lib b rest in (Prompt # out @ fst r, snd r))
      | (out, Break) \<Rightarrow> (Prompt # out, Returned)
      | (out, Raise e) \<Rightarrow> (Prompt # out, Raised e))"

section \<open>A sample library and bundle\<close>

text \<open>
  An instance of the library parameter for evaluating the model on concrete input. It agrees
  with Python on what the evaluations below hand to it: patterns without metacharacters,
  ASCII text, and plain decimal numerals.
\<close>

definition sample_lib :: pylib where
  "sample_lib =
     \<lparr>re_search = (\<lambda>p l. Some (sublist p l)),
      str_upper = map (\<lambda>c. if 97 \<le> (of_char c :: nat) \<and> (of_char c :: nat) \<le> 122
                             then char_of ((of_char c :: nat) - 32) else c),
      int_of_str = (\<lambda>s. if s \<noteq> [] \<and> list_all (\<lambda>c. 48 \<le> (of_char c :: nat) \<and> (of_char c :: nat) \<le> 57) s
                          then Some (foldl (\<lambda>a c. 10 * a + (int (of_char c) - 48)) 0 s)
                          else None)\<rparr>"

definition text_of :: "string list \<Rightarrow> string" where
  "text_of ls = concat (map (\<lambda>l. l @ [CHR 0x0A]) ls)"

text \<open>Two volume records, the second without the key \<^verbatim>\<open>attached_on\<close>.\<close>

definition vol_200 :: json where
  "vol_200 =
     JObj [(''id'', JStr ''200''),
           (''locator'', JObj [(''name'', JStr ''data'')]),
           (''spec'', JObj [(''size'', JInt 1024), (''ha_level'', JInt 1)]),
           (''status'', JStr ''up''),
           (''attached_on'', JNull)]"

definition vol_300 :: json where
  "vol_300 =
     JObj [(''id'', JStr ''300''),
           (''locator'', JObj [(''name'', JStr ''logs'')]),
           (''spec'', JObj [(''size'', JInt 2147483648), (''ha_level'', JInt 2)]),
           (''status'', JStr ''up'')]"

text \<open>A bundle with three artifacts under \<^verbatim>\<open>misc\<close> (there is no
  \<^verbatim>\<open>uptime.out\<close>), a configuration document, and a dataset of one record.\<close>

definition sample_diag :: diag where
  \<open>sample_diag =
     \<lparr>misc = Some (map_of
        [(''lsblk.out'', text_of [''sda 8:0 disk'', ''sdb 8:16 disk'']),
         (''date.out'', text_of [''Mon Jan  1 00:00:00 UTC 2024'']),
         (''px-alerts.out'', text_of [''no alerts''])]),
      etc = Some (map_of
        [(''config.json'', text_of [''{'', ''  "clusterid": "px-1",'', ''  "mgtiface": "eth0"'', ''}''])]),
      px_volumes = Dataset (JList [vol_200])\<rparr>\<close>

section \<open>Size humanization\<close>

text \<open>Below \<open>1024 ^ 5\<close> the loop returns at one of the five units, as in these values
  of the specification.\<close>

lemma human_size_examples:
  "human_size lib (JInt 1023) = Inr (Some ''1023 B'') \<and>
   human_size lib (JInt 1024) = Inr (Some ''1 KiB'') \<and>
   human_size lib (JInt 1536) = Inr (Some ''1 KiB'') \<and>
   human_size lib (JInt 1073741824) = Inr (Some ''1 GiB'')"
  by code_simp

text \<open>
  C1. The claim is that \<^verbatim>\<open>human_size\<close> returns a string for every non-negative byte
  count, the last unit taking any remaining magnitude. The loop tests \<^verbatim>\<open>b < 1024\<close>
  at \<^verbatim>\<open>TiB\<close> as at every other unit, so at one pebibyte, \<open>1024 ^ 5\<close>, it runs out
  of units and the function returns \<^verbatim>\<open>None\<close>.
\<close>

theorem human_size_pebibyte:
  "human_size lib (JInt (1024 ^ 5)) = Inr None"
  by (simp add: human_size_def bind_def)

section \<open>Tokens of a command line\<close>

lemma split_aux_tokens:
  "\<forall>c\<in>set cur. \<not> is_space c \<Longrightarrow>
   \<forall>t\<in>set (split_aux s cur). t \<noteq> [] \<and> (\<forall>c\<in>set t. \<not> is_space c)"
proof (induction s arbitrary: cur)
  case Nil
  then show ?case by simp
next
  case (Cons a s)
  show ?case
  proof (cases "is_space a")
    case True
    have e: "\<forall>t\<in>set (split_aux s []). t \<noteq> [] \<and> (\<forall>c\<in>set t. \<not> is_space c)"
      by (rule Cons.IH) simp
    show ?thesis
    proof (cases "cur = []")
      case True
      with \<open>is_space a\<close> e show ?thesis by simp
    next
      case False
      with \<open>is_space a\<close> e Cons.prems show ?thesis by simp
    qed
  next
    case False
    have "\<forall>c\<in>set (cur @ [a]). \<not> is_space c" using False Cons.prems by simp
    then have "\<forall>t\<in>set (split_aux s (cur @ [a])). t \<noteq> [] \<and> (\<forall>c\<in>set t. \<not> is_space c)"
      by (rule Cons.IH)
    with False show ?thesis by simp
  qed
qed

lemma split_tokens:
  "t \<in> set (str_split s) \<Longrightarrow> t \<noteq> [] \<and> (\<forall>c\<in>set t. \<not> is_space c)"
proof -
  have "\<forall>t\<in>set (split_aux s []). t \<noteq> [] \<and> (\<forall>c\<in>set t. \<not> is_space c)"
    by (rule split_aux_tokens) simp
  then show "t \<in> set (str_split s) \<Longrightarrow> t \<noteq> [] \<and> (\<forall>c\<in>set t. \<not> is_space c)"
    unfolding str_split_def by blast
qed

lemma split_aux_token:
  "\<forall>c\<in>set t. \<not> is_space c \<Longrightarrow> split_aux (t @ rest) cur = split_aux rest (cur @ t)"
  by (induction t arbitrary: cur) auto

lemma is_space_blank: "is_space CHR '' ''"
  by (simp add: is_space_def)

text \<open>Joining tokens with single blanks and splitting again gives the tokens back.\<close>

lemma split_aux_join:
  "\<forall>t\<in>set ts. t \<noteq> [] \<and> (\<forall>c\<in>set t. \<not> is_space c) \<Longrightarrow>
   split_aux (str_join '' '' ts) [] = ts"
proof (induction "'' ''" ts rule: str_join.induct)
  case 1
  show ?case by simp
next
  case (2 p)
  then show ?case using split_aux_token [of p "[]" "[]"] by simp
next
  case (3 p q ps)
  have "split_aux (p @ '' '' @ str_join '' '' (q # ps)) [] =
        split_aux ('' '' @ str_join '' '' (q # ps)) p"
    using 3(2) split_aux_token [of p "'' '' @ str_join '' '' (q # ps)" "[]"] by simp
  also have "\<dots> = p # split_aux (str_join '' '' (q # ps)) []"
    using 3(2) by (simp add: is_space_blank)
  also have "\<dots> = p # q # ps" using 3 by simp
  finally show ?case by simp
qed

lemma split_join:
  assumes "\<forall>t\<in>set ts. t \<in> set (str_split s)"
  shows "str_split (str_join '' '' ts) = ts"
proof -
  have "\<forall>t\<in>set ts. t \<noteq> [] \<and> (\<forall>c\<in>set t. \<not> is_space c)"
  proof
    fix t assume "t \<in> set ts"
    then have "t \<in> set (str_split s)" using assms by simp
    then show "t \<noteq> [] \<and> (\<forall>c\<in>set t. \<not> is_space c)" by (rule split_tokens)
  qed
  then show ?thesis unfolding str_split_def by (rule split_aux_join)
qed

lemma base_tokens:
  "str_split (fst (parse_command cmd)) =
   filter (\<lambda>p. \<not> isdigit p) (filter (\<lambda>p. p \<noteq> ''-j'') (str_split cmd))"
proof -
  have b: "fst (parse_command cmd) =
      str_join '' '' (filter (\<lambda>p. \<not> isdigit p) (filter (\<lambda>p. p \<noteq> ''-j'') (str_split cmd)))"
    by (simp add: parse_command_def Let_def)
  have "\<forall>t\<in>set (filter (\<lambda>p. \<not> isdigit p) (filter (\<lambda>p. p \<noteq> ''-j'') (str_split cmd))).
          t \<in> set (str_split cmd)"
    by simp
  then show ?thesis unfolding b by (rule split_join)
qed

lemma find_first:
  "find P xs = Some t \<Longrightarrow> \<exists>pre post. xs = pre @ t # post \<and> P t \<and> (\<forall>p\<in>set pre. \<not> P p)"
proof (induction xs)
  case Nil
  then show ?case by simp
next
  case (Cons x xs)
  show ?case
  proof (cases "P x")
    case True
    with Cons.prems have "x = t" by simp
    with True have "x # xs = [] @ t # xs \<and> P t \<and> (\<forall>p\<in>set []. \<not> P p)" by simp
    then show ?thesis by blast
  next
    case False
    with Cons.prems have "find P xs = Some t" by simp
    then obtain pre post where "xs = pre @ t # post \<and> P t \<and> (\<forall>p\<in>set pre. \<not> P p)"
      using Cons.IH by blast
    with False have "x # xs = (x # pre) @ t # post \<and> P t \<and> (\<forall>p\<in>set (x # pre). \<not> P p)"
      by simp
    then show ?thesis by blast
  qed
qed

section \<open>Numeric identifier extraction\<close>

text \<open>
  C2, as stated: only the first digit-only token is taken out of the token stream, and every
  other digit-only token stays in the base string. The comprehension of line 114 drops every
  token for which \<^verbatim>\<open>isdigit\<close> holds: of the two numbers of this line, the second is
  in the input and not in the base.
\<close>

theorem parse_command_second_number_dropped:
  "parse_command ''pxctl volume inspect 100 200'' = (''pxctl volume inspect'', False, Some ''100'')
   \<and> ''200'' \<in> set (str_split ''pxctl volume inspect 100 200'')
   \<and> ''200'' \<notin> set (str_split (fst (parse_command ''pxctl volume inspect 100 200'')))"
  by code_simp

text \<open>
  C2, amended: the numeric argument is the first token, from left to right, that is neither
  \<^verbatim>\<open>-j\<close> nor rejected by \<^verbatim>\<open>isdigit\<close> (none when there is no such token), and
  the tokens of the base string are exactly the tokens that are neither \<^verbatim>\<open>-j\<close> nor
  digit-only, in their order: every digit-only token is removed, not the first alone.
\<close>

theorem parse_command_numeric:
  "str_split (fst (parse_command cmd)) =
     filter (\<lambda>p. \<not> isdigit p) (filter (\<lambda>p. p \<noteq> ''-j'') (str_split cmd))
   \<and> (snd (snd (parse_command cmd)) = None \<longleftrightarrow>
        (\<forall>t\<in>set (filter (\<lambda>p. p \<noteq> ''-j'') (str_split cmd)). \<not> isdigit t))
   \<and> (\<forall>t. snd (snd (parse_command cmd)) = Some t \<longrightarrow>
        isdigit t \<and>
        (\<exists>pre post. filter (\<lambda>p. p \<noteq> ''-j'') (str_split cmd) = pre @ t # post \<and>
                    (\<forall>p\<in>set pre. \<not> isdigit p)))"
proof -
  have v: "snd (snd (parse_command cmd)) =
           find isdigit (filter (\<lambda>p. p \<noteq> ''-j'') (str_split cmd))"
    by (simp add: parse_command_def Let_def)
  have n: "snd (snd (parse_command cmd)) = None \<longleftrightarrow>
        (\<forall>t\<in>set (filter (\<lambda>p. p \<noteq> ''-j'') (str_split cmd)). \<not> isdigit t)"
    unfolding v by (simp only: find_None_iff) blast
  have s: "\<forall>t. snd (snd (parse_command cmd)) = Some t \<longrightarrow>
        isdigit t \<and>
        (\<exists>pre post. filter (\<lambda>p. p \<noteq> ''-j'') (str_split cmd) = pre @ t # post \<and>
                    (\<forall>p\<in>set pre. \<not> isdigit p))"
    unfolding v using find_first [of isdigit "filter (\<lambda>p. p \<noteq> ''-j'') (str_split cmd)"]
    by blast
  from base_tokens [of cmd] n s show ?thesis by (intro conjI)
qed

theorem parse_command_numeric_witness:
  "str_split (fst (parse_command ''pxctl v i 7 -j 8'')) = [''pxctl'', ''v'', ''i'']
   \<and> snd (snd (parse_command ''pxctl v i 7 -j 8'')) = Some ''7''
   \<and> isdigit ''7''
   \<and> (\<exists>pre post. filter (\<lambda>p. p \<noteq> ''-j'') (str_split ''pxctl v i 7 -j 8'') = pre @ ''7'' # post \<and>
                  (\<forall>p\<in>set pre. \<not> isdigit p))"
proof -
  have e: "snd (snd (parse_command ''pxctl v i 7 -j 8'')) = Some ''7''" by code_simp
  have f: "filter (\<lambda>p. \<not> isdigit p) (filter (\<lambda>p. p \<noteq> ''-j'') (str_split ''pxctl v i 7 -j 8''))
           = [''pxctl'', ''v'', ''i'']" by code_simp
  from parse_command_numeric [of "''pxctl v i 7 -j 8''"] e f show ?thesis by (simp only:)
qed

section \<open>Dispatch\<close>

text \<open>A line that is not blank, an exit word or a help word is parsed and dispatched.\<close>

lemma exec_line_dispatch:
  assumes "strip raw \<noteq> []"
    and "strip raw \<notin> {''exit'', ''quit'', ''pxctl'', ''help'', ''?'', ''pxctl help'', ''pxctl --help''}"
    and "split_pipe (strip raw) = (left, pipe)"
    and "parse_command left = (base_cmd, is_json, vol_id)"
  shows "exec_line lib b raw = dispatch lib b base_cmd is_json vol_id pipe"
  using assms by (simp add: exec_line_def Let_def)

lemma main_loop_continue:
  "exec_line lib b raw = (out, Continue) \<Longrightarrow>
   main_loop lib b (raw # rest) = (Prompt # out @ fst (main_loop lib b rest), snd (main_loop lib b rest))"
  by (simp add: Let_def)

lemma main_loop_raise:
  "exec_line lib b raw = (out, Raise e) \<Longrightarrow> main_loop lib b (raw # rest) = (Prompt # out, Raised e)"
  by simp

text \<open>
  C7, as stated: the full form and the abbreviation of each of the seven commands resolve to
  the identical entry of the alias table. Four of the seven have no entry at all: neither form
  of the volume list, volume inspect, config show and cluster UUID show commands is a key of
  \<^verbatim>\<open>COMMAND_MAP\<close>. Both forms are commands of the session nevertheless, as the volume
  list in JSON shows on the sample bundle.
\<close>

theorem alias_without_entry:
  "map_of COMMAND_MAP ''pxctl volume list'' = None
   \<and> map_of COMMAND_MAP ''pxctl v l'' = None
   \<and> map_of COMMAND_MAP ''pxctl volume inspect'' = None
   \<and> map_of COMMAND_MAP ''pxctl v i'' = None
   \<and> map_of COMMAND_MAP ''pxctl config show'' = None
   \<and> map_of COMMAND_MAP ''pxctl config s'' = None
   \<and> map_of COMMAND_MAP ''pxctl clusteruuid show'' = None
   \<and> map_of COMMAND_MAP ''pxctl clusteruuid s'' = None
   \<and> exec_line sample_lib sample_diag ''pxctl v l -j'' = ([Print_json (JList [vol_200])], Continue)
   \<and> exec_line sample_lib sample_diag ''pxctl volume list -j'' =
       ([Print_json (JList [vol_200])], Continue)"
  by code_simp

text \<open>
  C7, amended: the kvdb members, alerts show and clouddrive list commands are keys of
  \<^verbatim>\<open>COMMAND_MAP\<close> under both forms, with the same entry. Neither form of the volume list,
  volume inspect, config show and cluster UUID show commands is a key: \<^verbatim>\<open>main\<close>
  compares the base command with both forms before it consults the table (lines 228-255). For
  each of the seven, the dispatch does with the abbreviation what it does with the full form,
  whatever the bundle, the \<^verbatim>\<open>-j\<close> flag, the identifier and the filter: it streams the
  artifact of the entry from \<^verbatim>\<open>misc\<close> through the filter, runs the volume list or the
  volume inspection, or streams \<^verbatim>\<open>config.json\<close> or \<^verbatim>\<open>cluster_uuid\<close> from
  \<^verbatim>\<open>etc\<close> without the filter.
\<close>

theorem alias_behaviour:
  "map_of COMMAND_MAP ''pxctl service kvdb members'' = Some (''misc'', ''px-kvdb.out'')
   \<and> map_of COMMAND_MAP ''pxctl sv k m'' = Some (''misc'', ''px-kvdb.out'')
   \<and> map_of COMMAND_MAP ''pxctl alerts show'' = Some (''misc'', ''px-alerts.out'')
   \<and> map_of COMMAND_MAP ''pxctl a s'' = Some (''misc'', ''px-alerts.out'')
   \<and> map_of COMMAND_MAP ''pxctl clouddrive list'' = Some (''misc'', ''px-clouddrive-list.out'')
   \<and> map_of COMMAND_MAP ''pxctl cd l'' = Some (''misc'', ''px-clouddrive-list.out'')
   \<and> map_of COMMAND_MAP ''pxctl volume list'' = None
   \<and> map_of COMMAND_MAP ''pxctl v l'' = None
   \<and> map_of COMMAND_MAP ''pxctl volume inspect'' = None
   \<and> map_of COMMAND_MAP ''pxctl v i'' = None
   \<and> map_of COMMAND_MAP ''pxctl config show'' = None
   \<and> map_of COMMAND_MAP ''pxctl config s'' = None
   \<and> map_of COMMAND_MAP ''pxctl clusteruuid show'' = None
   \<and> map_of COMMAND_MAP ''pxctl clusteruuid s'' = None
   \<and> dispatch lib b ''pxctl service kvdb members'' is_json vol_id pipe =
       (case path_join (misc b) ''px-kvdb.out'' of
          Inl e \<Rightarrow> ([], Raise e)
        | Inr p \<Rightarrow> finish (stream_file lib p pipe))
   \<and> dispatch lib b ''pxctl sv k m'' is_json vol_id pipe =
       dispatch lib b ''pxctl service kvdb members'' is_json vol_id pipe
   \<and> dispatch lib b ''pxctl alerts show'' is_json vol_id pipe =
       (case path_join (misc b) ''px-alerts.out'' of
          Inl e \<Rightarrow> ([], Raise e)
        | Inr p \<Rightarrow> finish (stream_file lib p pipe))
   \<and> dispatch lib b ''pxctl a s'' is_json vol_id pipe =
       dispatch lib b ''pxctl alerts show'' is_json vol_id pipe
   \<and> dispatch lib b ''pxctl clouddrive list'' is_json vol_id pipe =
       (case path_join (misc b) ''px-clouddrive-list.out'' of
          Inl e \<Rightarrow> ([], Raise e)
        | Inr p \<Rightarrow> finish (stream_file lib p pipe))
   \<and> dispatch lib b ''pxctl cd l'' is_json vol_id pipe =
       dispatch lib b ''pxctl clouddrive list'' is_json vol_id pipe
   \<and> dispatch lib b ''pxctl volume list'' is_json vol_id pipe =
       (case load_volumes b of
          Inl e \<Rightarrow> ([], Raise e)
        | Inr vols \<Rightarrow>
            if is_json then
              (case bind (iter vols) (\<lambda>vs. select_volumes vs vol_id) of
                 Inl e \<Rightarrow> ([], Raise e)
               | Inr sel \<Rightarrow> ([Print_json (JList sel)], Continue))
            else finish (volume_list lib b))
   \<and> dispatch lib b ''pxctl v l'' is_json vol_id pipe =
       dispatch lib b ''pxctl volume list'' is_json vol_id pipe
   \<and> dispatch lib b ''pxctl volume inspect'' is_json vol_id pipe =
       (case load_volumes b of
          Inl e \<Rightarrow> ([], Raise e)
        | Inr vols \<Rightarrow>
            (case bind (iter vols) (\<lambda>vs. find_volume vs vol_id) of
               Inl e \<Rightarrow> ([], Raise e)
             | Inr None \<Rightarrow> ([Print (not_found_line vol_id)], Continue)
             | Inr (Some v) \<Rightarrow>
                 if \<not> truthy v then ([Print (not_found_line vol_id)], Continue)
                 else if is_json then ([Print_json v], Continue)
                 else finish (volume_inspect lib v)))
   \<and> dispatch lib b ''pxctl v i'' is_json vol_id pipe =
       dispatch lib b ''pxctl volume inspect'' is_json vol_id pipe
   \<and> dispatch lib b ''pxctl config show'' is_json vol_id pipe =
       (case path_join (etc b) ''config.json'' of
          Inl e \<Rightarrow> ([], Raise e)
        | Inr p \<Rightarrow> finish (stream_file lib p None))
   \<and> dispatch lib b ''pxctl config s'' is_json vol_id pipe =
       dispatch lib b ''pxctl config show'' is_json vol_id pipe
   \<and> dispatch lib b ''pxctl clusteruuid show'' is_json vol_id pipe =
       (case path_join (etc b) ''cluster_uuid'' of
          Inl e \<Rightarrow> ([], Raise e)
        | Inr p \<Rightarrow> finish (stream_file lib p None))
   \<and> dispatch lib b ''pxctl clusteruuid s'' is_json vol_id pipe =
       dispatch lib b ''pxctl clusteruuid show'' is_json vol_id pipe"
proof -
  have m: "map_of COMMAND_MAP ''pxctl service kvdb members'' = Some (''misc'', ''px-kvdb.out'')"
    "map_of COMMAND_MAP ''pxctl sv k m'' = Some (''misc'', ''px-kvdb.out'')"
    "map_of COMMAND_MAP ''pxctl alerts show'' = Some (''misc'', ''px-alerts.out'')"
    "map_of COMMAND_MAP ''pxctl a s'' = Some (''misc'', ''px-alerts.out'')"
    "map_of COMMAND_MAP ''pxctl clouddrive list'' = Some (''misc'', ''px-clouddrive-list.out'')"
    "map_of COMMAND_MAP ''pxctl cd l'' = Some (''misc'', ''px-clouddrive-list.out'')"
    by (simp_all add: COMMAND_MAP_def)
  have n: "map_of COMMAND_MAP ''pxctl volume list'' = None"
    "map_of COMMAND_MAP ''pxctl v l'' = None"
    "map_of COMMAND_MAP ''pxctl volume inspect'' = None"
    "map_of COMMAND_MAP ''pxctl v i'' = None"
    "map_of COMMAND_MAP ''pxctl config show'' = None"
    "map_of COMMAND_MAP ''pxctl config s'' = None"
    "map_of COMMAND_MAP ''pxctl clusteruuid show'' = None"
    "map_of COMMAND_MAP ''pxctl clusteruuid s'' = None"
    by (simp_all add: COMMAND_MAP_def)
  have t: "dispatch lib b ''pxctl service kvdb members'' is_json vol_id pipe =
       (case path_join (misc b) ''px-kvdb.out'' of
          Inl e \<Rightarrow> ([], Raise e)
        | Inr p \<Rightarrow> finish (stream_file lib p pipe))"
    "dispatch lib b ''pxctl sv k m'' is_json vol_id pipe =
       dispatch lib b ''pxctl service kvdb members'' is_json vol_id pipe"
    "dispatch lib b ''pxctl alerts show'' is_json vol_id pipe =
       (case path_join (misc b) ''px-alerts.out'' of
          Inl e \<Rightarrow> ([], Raise e)
        | Inr p \<Rightarrow> finish (stream_file lib p pipe))"
    "dispatch lib b ''pxctl a s'' is_json vol_id pipe =
       dispatch lib b ''pxctl alerts show'' is_json vol_id pipe"
    "dispatch lib b ''pxctl clouddrive list'' is_json vol_id pipe =
       (case path_join (misc b) ''px-clouddrive-list.out'' of
          Inl e \<Rightarrow> ([], Raise e)
        | Inr p \<Rightarrow> finish (stream_file lib p pipe))"
    "dispatch lib b ''pxctl cd l'' is_json vol_id pipe =
       dispatch lib b ''pxctl clouddrive list'' is_json vol_id pipe"
    by (simp_all add: dispatch_def m)
  have v: "dispatch lib b ''pxctl volume list'' is_json vol_id pipe =
       (case load_volumes b of
          Inl e \<Rightarrow> ([], Raise e)
        | Inr vols \<Rightarrow>
            if is_json then
              (case bind (iter vols) (\<lambda>vs. select_volumes vs vol_id) of
                 Inl e \<Rightarrow> ([], Raise e)
               | Inr sel \<Rightarrow> ([Print_json (JList sel)], Continue))
            else finish (volume_list lib b))"
    "dispatch lib b ''pxctl v l'' is_json vol_id pipe =
       dispatch lib b ''pxctl volume list'' is_json vol_id pipe"
    "dispatch lib b ''pxctl volume inspect'' is_json vol_id pipe =
       (case load_volumes b of
          Inl e \<Rightarrow> ([], Raise e)
        | Inr vols \<Rightarrow>
            (case bind (iter vols) (\<lambda>vs. find_volume vs vol_id) of
               Inl e \<Rightarrow> ([], Raise e)
             | Inr None \<Rightarrow> ([Print (not_found_line vol_id)], Continue)
             | Inr (Some v) \<Rightarrow>
                 if \<not> truthy v then ([Print (not_found_line vol_id)], Continue)
                 else if is_json then ([Print_json v], Continue)
                 else finish (volume_inspect lib v)))"
    "dispatch lib b ''pxctl v i'' is_json vol_id pipe =
       dispatch lib b ''pxctl volume inspect'' is_json vol_id pipe"
    by (simp_all add: dispatch_def)
  have c: "dispatch lib b ''pxctl config show'' is_json vol_id pipe =
       (case path_join (etc b) ''config.json'' of
          Inl e \<Rightarrow> ([], Raise e)
        | Inr p \<Rightarrow> finish (stream_file lib p None))"
    "dispatch lib b ''pxctl config s'' is_json vol_id pipe =
       dispatch lib b ''pxctl config show'' is_json vol_id pipe"
    "dispatch lib b ''pxctl clusteruuid show'' is_json vol_id pipe =
       (case path_join (etc b) ''cluster_uuid'' of
          Inl e \<Rightarrow> ([], Raise e)
        | Inr p \<Rightarrow> finish (stream_file lib p None))"
    "dispatch lib b ''pxctl clusteruuid s'' is_json vol_id pipe =
       dispatch lib b ''pxctl clusteruuid show'' is_json vol_id pipe"
    by (simp_all add: dispatch_def)
  from m n t v c show ?thesis by (intro conjI)
qed

theorem alias_behaviour_witness:
  "dispatch sample_lib sample_diag ''pxctl a s'' False None None = ([Print ''no alerts''], Continue)
   \<and> dispatch sample_lib sample_diag ''pxctl alerts show'' False None None =
       ([Print ''no alerts''], Continue)
   \<and> dispatch sample_lib sample_diag ''pxctl v l'' True None None =
       ([Print_json (JList [vol_200])], Continue)
   \<and> dispatch sample_lib sample_diag ''pxctl volume list'' True None None =
       ([Print_json (JList [vol_200])], Continue)"
proof -
  have a: "(case path_join (misc sample_diag) ''px-alerts.out'' of
          Inl e \<Rightarrow> ([], Raise e)
        | Inr p \<Rightarrow> finish (stream_file sample_lib p None)) = ([Print ''no alerts''], Continue)"
    by code_simp
  have l: "(case load_volumes sample_diag of
          Inl e \<Rightarrow> ([], Raise e)
        | Inr vols \<Rightarrow>
            if True then
              (case bind (iter vols) (\<lambda>vs. select_volumes vs None) of
                 Inl e \<Rightarrow> ([], Raise e)
               | Inr sel \<Rightarrow> ([Print_json (JList sel)], Continue))
            else finish (volume_list sample_lib sample_diag)) =
        ([Print_json (JList [vol_200])], Continue)"
    by code_simp
  from alias_behaviour [of sample_lib sample_diag False None None] a
  have 1: "dispatch sample_lib sample_diag ''pxctl a s'' False None None = ([Print ''no alerts''], Continue)"
    "dispatch sample_lib sample_diag ''pxctl alerts show'' False None None =
       ([Print ''no alerts''], Continue)"
    by (simp_all only:)
  from alias_behaviour [of sample_lib sample_diag True None None] l
  have 2: "dispatch sample_lib sample_diag ''pxctl v l'' True None None =
       ([Print_json (JList [vol_200])], Continue)"
    "dispatch sample_lib sample_diag ''pxctl volume list'' True None None =
       ([Print_json (JList [vol_200])], Continue)"
    by (simp_all only:)
  from 1 2 show ?thesis by (intro conjI)
qed

section \<open>Volume inspection\<close>

lemma find_volume_absent:
  "\<forall>v\<in>set vs. \<exists>x. subscript v ''id'' = Inr x \<and> x \<noteq> JStr i \<Longrightarrow>
   find_volume vs (Some i) = Inr None"
proof (induction vs)
  case Nil
  show ?case by simp
next
  case (Cons v vs)
  then obtain x where x: "subscript v ''id'' = Inr x" "x \<noteq> JStr i" by auto
  from Cons have "find_volume vs (Some i) = Inr None" by simp
  with x show ?case by (simp add: bind_def id_equals_def)
qed

lemma inspect_line_100:
  "strip ''pxctl volume inspect -j 100'' = ''pxctl volume inspect -j 100''
   \<and> split_pipe ''pxctl volume inspect -j 100'' = (''pxctl volume inspect -j 100'', None)
   \<and> parse_command ''pxctl volume inspect -j 100'' = (''pxctl volume inspect'', True, Some ''100'')"
  by code_simp

text \<open>
  C8. When the dataset loads as a list of records, each with an \<^verbatim>\<open>id\<close>, and no
  \<^verbatim>\<open>id\<close> is the string \<^verbatim>\<open>100\<close>, a volume inspect command with the identifier
  100 (either form of the command, with or without \<^verbatim>\<open>-j\<close>, whatever follows a pipe)
  prints the one line \<^verbatim>\<open>Volume 100 not found\<close> and nothing else; for the line
  \<^verbatim>\<open>pxctl volume inspect -j 100\<close> the loop then goes on with the rest of the input.
\<close>

theorem volume_not_found:
  assumes "misc b = Some d"
    and "px_volumes b = Dataset (JList vs)"
    and "\<forall>v\<in>set vs. \<exists>x. subscript v ''id'' = Inr x \<and> x \<noteq> JStr ''100''"
    and "base_cmd = ''pxctl volume inspect'' \<or> base_cmd = ''pxctl v i''"
  shows "dispatch lib b base_cmd is_json (Some ''100'') pipe =
           ([Print ''Volume 100 not found''], Continue)
       \<and> exec_line lib b ''pxctl volume inspect -j 100'' =
           ([Print ''Volume 100 not found''], Continue)
       \<and> main_loop lib b (''pxctl volume inspect -j 100'' # rest) =
           (Prompt # Print ''Volume 100 not found'' # fst (main_loop lib b rest),
            snd (main_loop lib b rest))"
proof -
  have l: "load_volumes b = Inr (JList vs)"
    using assms(1,2) by (simp add: load_volumes_def path_join_def bind_def)
  have f: "find_volume vs (Some ''100'') = Inr None"
    using assms(3) by (rule find_volume_absent)
  have n: "not_found_line (Some ''100'') = ''Volume 100 not found''"
    by (simp add: not_found_line_def)
  have d: "dispatch lib b bc js (Some ''100'') pp = ([Print ''Volume 100 not found''], Continue)"
    if "bc = ''pxctl volume inspect'' \<or> bc = ''pxctl v i''" for bc js pp
    using that l f n by (auto simp add: dispatch_def bind_def)
  have "exec_line lib b ''pxctl volume inspect -j 100'' =
        dispatch lib b ''pxctl volume inspect'' True (Some ''100'') None"
    by (rule exec_line_dispatch [where left = "''pxctl volume inspect -j 100''"])
       (simp_all add: inspect_line_100)
  then have e: "exec_line lib b ''pxctl volume inspect -j 100'' =
        ([Print ''Volume 100 not found''], Continue)"
    using d [of "''pxctl volume inspect''" True None] by simp
  from d [OF assms(4)] e main_loop_continue [OF e, of rest] show ?thesis by simp
qed

theorem volume_not_found_witness:
  "exec_line sample_lib sample_diag ''pxctl volume inspect -j 100'' =
     ([Print ''Volume 100 not found''], Continue)
   \<and> main_loop sample_lib sample_diag [''pxctl volume inspect -j 100'', ''exit''] =
     ([Prompt, Print ''Volume 100 not found'', Prompt], Returned)"
proof -
  have 1: "misc sample_diag = Some (map_of
        [(''lsblk.out'', text_of [''sda 8:0 disk'', ''sdb 8:16 disk'']),
         (''date.out'', text_of [''Mon Jan  1 00:00:00 UTC 2024'']),
         (''px-alerts.out'', text_of [''no alerts''])])"
    by (simp add: sample_diag_def)
  have 2: "px_volumes sample_diag = Dataset (JList [vol_200])"
    by (simp add: sample_diag_def)
  have 3: "\<forall>v\<in>set [vol_200]. \<exists>x. subscript v ''id'' = Inr x \<and> x \<noteq> JStr ''100''"
    by (simp add: vol_200_def)
  have 4: "''pxctl volume inspect'' = ''pxctl volume inspect'' \<or> ''pxctl volume inspect'' = ''pxctl v i''"
    by simp
  have x: "main_loop sample_lib sample_diag [''exit''] = ([Prompt], Returned)"
    by code_simp
  from volume_not_found [OF 1 2 3 4, of sample_lib True None "[''exit'']"] x
  show ?thesis by simp
qed

section \<open>Missing artifacts and a missing or malformed dataset\<close>

text \<open>Every entry of the table is in the \<^verbatim>\<open>misc\<close> category, and no key of the table is
  one of the names that \<^verbatim>\<open>main\<close> tests before it consults the table.\<close>

lemma command_map_entry:
  assumes "map_of COMMAND_MAP base_cmd = Some (loc, fname)"
  shows "loc = ''misc''"
    and "base_cmd \<notin> {''pxctl volume list'', ''pxctl v l'', ''pxctl volume inspect'', ''pxctl v i'',
                      ''pxctl config show'', ''pxctl config s'', ''pxctl clusteruuid show'',
                      ''pxctl clusteruuid s''}"
  using assms by (auto simp add: COMMAND_MAP_def split: if_splits)

lemma dispatch_command_map:
  assumes "map_of COMMAND_MAP base_cmd = Some (loc, fname)"
  shows "dispatch lib b base_cmd is_json vol_id pipe =
     (case path_join (misc b) fname of
        Inl e \<Rightarrow> ([], Raise e)
      | Inr p \<Rightarrow> finish (stream_file lib p pipe))"
  using command_map_entry [OF assms] assms by (simp add: dispatch_def)

text \<open>
  C3, as stated: a missing artifact is reported in one line and the session goes on. There is no
  \<^verbatim>\<open>except\<close> clause in \<^verbatim>\<open>main\<close>: \<^verbatim>\<open>open\<close> raises, nothing is printed, and
  the loop is left. The bundle has no \<^verbatim>\<open>uptime.out\<close>, and the second command, whose
  artifact exists, is never read.
\<close>

theorem missing_artifact_ends_session:
  "main_loop sample_lib sample_diag [''uptime'', ''date''] = ([Prompt], Raised FileNotFoundError)"
  by code_simp

text \<open>
  C3, amended: for a command of the alias table whose artifact is not in the \<^verbatim>\<open>misc\<close>
  folder, \<^verbatim>\<open>open\<close> raises \<^verbatim>\<open>FileNotFoundError\<close>; no line is printed, the
  exception leaves the loop, and the rest of the input is not read.
\<close>

theorem missing_artifact_raises:
  assumes "strip raw \<noteq> []"
    and "strip raw \<notin> {''exit'', ''quit'', ''pxctl'', ''help'', ''?'', ''pxctl help'', ''pxctl --help''}"
    and "split_pipe (strip raw) = (left, pipe)"
    and "parse_command left = (base_cmd, is_json, vol_id)"
    and "map_of COMMAND_MAP base_cmd = Some (loc, fname)"
    and "misc b = Some d"
    and "d fname = None"
  shows "exec_line lib b raw =
           ((case pager_of pipe of None \<Rightarrow> [] | Some pager \<Rightarrow> [Pager_open pager]),
            Raise FileNotFoundError)
       \<and> main_loop lib b (raw # rest) =
           (Prompt # (case pager_of pipe of None \<Rightarrow> [] | Some pager \<Rightarrow> [Pager_open pager]),
            Raised FileNotFoundError)"
proof -
  have "exec_line lib b raw = dispatch lib b base_cmd is_json vol_id pipe"
    using assms(1-4) by (rule exec_line_dispatch)
  also have "\<dots> = ((case pager_of pipe of None \<Rightarrow> [] | Some pager \<Rightarrow> [Pager_open pager]),
            Raise FileNotFoundError)"
    using assms(6,7)
    by (simp add: dispatch_command_map [OF assms(5)] path_join_def stream_file_def open_file_def
        finish_def split: option.split)
  finally have e: "exec_line lib b raw =
      ((case pager_of pipe of None \<Rightarrow> [] | Some pager \<Rightarrow> [Pager_open pager]),
       Raise FileNotFoundError)" .
  from e main_loop_raise [OF e, of rest] show ?thesis by simp
qed

theorem missing_artifact_raises_witness:
  "exec_line sample_lib sample_diag ''uptime | less'' = ([Pager_open ''less''], Raise FileNotFoundError)
   \<and> main_loop sample_lib sample_diag [''uptime | less'', ''date''] =
       ([Prompt, Pager_open ''less''], Raised FileNotFoundError)"
proof -
  have 1: "strip ''uptime | less'' \<noteq> []" by code_simp
  have 2: "strip ''uptime | less'' \<notin>
      {''exit'', ''quit'', ''pxctl'', ''help'', ''?'', ''pxctl help'', ''pxctl --help''}" by code_simp
  have 3: "split_pipe (strip ''uptime | less'') = (''uptime'', Some ''less'')" by code_simp
  have 4: "parse_command ''uptime'' = (''uptime'', False, None)" by code_simp
  have 5: "map_of COMMAND_MAP ''uptime'' = Some (''misc'', ''uptime.out'')" by code_simp
  have 6: "misc sample_diag = Some (map_of
        [(''lsblk.out'', text_of [''sda 8:0 disk'', ''sdb 8:16 disk'']),
         (''date.out'', text_of [''Mon Jan  1 00:00:00 UTC 2024'']),
         (''px-alerts.out'', text_of [''no alerts''])])"
    by (simp add: sample_diag_def)
  have 7: "map_of
        [(''lsblk.out'', text_of [''sda 8:0 disk'', ''sdb 8:16 disk'']),
         (''date.out'', text_of [''Mon Jan  1 00:00:00 UTC 2024'']),
         (''px-alerts.out'', text_of [''no alerts''])] ''uptime.out'' = None"
    by simp
  have 8: "pager_of (Some ''less'') = Some ''less''" by (simp add: pager_of_def)
  from missing_artifact_raises [OF 1 2 3 4 5 6 7, of sample_lib "[''date'']"] 8
  show ?thesis by simp
qed

text \<open>
  C5, as stated: a missing or malformed dataset is reported in one line and only the command
  is aborted. \<^verbatim>\<open>load_volumes\<close> raises and nothing catches the exception: nothing is
  printed and the session ends, the second command never being read.
\<close>

theorem bad_dataset_ends_session:
  "main_loop sample_lib (sample_diag\<lparr>px_volumes := Missing\<rparr>) [''pxctl volume list'', ''date''] =
     ([Prompt], Raised FileNotFoundError)
   \<and> main_loop sample_lib (sample_diag\<lparr>px_volumes := Malformed\<rparr>) [''pxctl v i 200'', ''date''] =
     ([Prompt], Raised JSONDecodeError)"
  by code_simp

text \<open>
  C5, amended: for a volume list or volume inspect command issued when the dataset is missing
  or is not valid JSON, \<^verbatim>\<open>load_volumes\<close> raises \<^verbatim>\<open>FileNotFoundError\<close> or
  \<^verbatim>\<open>JSONDecodeError\<close>; nothing is printed, the exception leaves the loop, and the rest
  of the input is not read.
\<close>

theorem bad_dataset_raises:
  assumes "strip raw \<noteq> []"
    and "strip raw \<notin> {''exit'', ''quit'', ''pxctl'', ''help'', ''?'', ''pxctl help'', ''pxctl --help''}"
    and "split_pipe (strip raw) = (left, pipe)"
    and "parse_command left = (base_cmd, is_json, vol_id)"
    and "base_cmd \<in> {''pxctl volume list'', ''pxctl v l'', ''pxctl volume inspect'', ''pxctl v i''}"
    and "misc b = Some d"
    and "px_volumes b = Missing \<or> px_volumes b = Malformed"
  shows "exec_line lib b raw =
           ([], Raise (if px_volumes b = Missing then FileNotFoundError else JSONDecodeError))
       \<and> main_loop lib b (raw # rest) =
           ([Prompt], Raised (if px_volumes b = Missing then FileNotFoundError else JSONDecodeError))"
proof -
  have l: "load_volumes b =
      Inl (if px_volumes b = Missing then FileNotFoundError else JSONDecodeError)"
    using assms(6,7) by (auto simp add: load_volumes_def path_join_def bind_def)
  have "exec_line lib b raw = dispatch lib b base_cmd is_json vol_id pipe"
    using assms(1-4) by (rule exec_line_dispatch)
  also have "\<dots> = ([], Raise (if px_volumes b = Missing then FileNotFoundError else JSONDecodeError))"
    using assms(5) by (auto simp add: dispatch_def l)
  finally have e: "exec_line lib b raw =
      ([], Raise (if px_volumes b = Missing then FileNotFoundError else JSONDecodeError))" .
  from e main_loop_raise [OF e, of rest] show ?thesis by simp
qed

theorem bad_dataset_raises_witness:
  "exec_line sample_lib (sample_diag\<lparr>px_volumes := Malformed\<rparr>) ''pxctl v l -j'' =
     ([], Raise JSONDecodeError)
   \<and> main_loop sample_lib (sample_diag\<lparr>px_volumes := Malformed\<rparr>) [''pxctl v l -j'', ''date''] =
     ([Prompt], Raised JSONDecodeError)"
proof -
  have 1: "strip ''pxctl v l -j'' \<noteq> []" by code_simp
  have 2: "strip ''pxctl v l -j'' \<notin>
      {''exit'', ''quit'', ''pxctl'', ''help'', ''?'', ''pxctl help'', ''pxctl --help''}" by code_simp
  have 3: "split_pipe (strip ''pxctl v l -j'') = (''pxctl v l -j'', None)" by code_simp
  have 4: "parse_command ''pxctl v l -j'' = (''pxctl v l'', True, None)" by code_simp
  have 5: "''pxctl v l'' \<in> {''pxctl volume list'', ''pxctl v l'', ''pxctl volume inspect'', ''pxctl v i''}"
    by simp
  have 6: "misc (sample_diag\<lparr>px_volumes := Malformed\<rparr>) = misc sample_diag" by simp
  have 7: "px_volumes (sample_diag\<lparr>px_volumes := Malformed\<rparr>) = Missing \<or>
           px_volumes (sample_diag\<lparr>px_volumes := Malformed\<rparr>) = Malformed" by simp
  have 8: "misc sample_diag = Some (map_of
        [(''lsblk.out'', text_of [''sda 8:0 disk'', ''sdb 8:16 disk'']),
         (''date.out'', text_of [''Mon Jan  1 00:00:00 UTC 2024'']),
         (''px-alerts.out'', text_of [''no alerts''])])"
    by (simp add: sample_diag_def)
  from bad_dataset_raises [OF 1 2 3 4 5 6 [unfolded 8] 7, of sample_lib "[''date'']"]
  show ?thesis by simp
qed

section \<open>Filters\<close>

lemma stream_lines_all:
  assumes "\<And>l. keep_line lib pipe l = Inr True"
  shows "stream_lines lib pipe ls = (map (\<lambda>l. Print (rstrip l)) ls, None)"
  by (induction ls) (simp_all add: assms Let_def)

lemma keep_line_other:
  assumes "\<not> prefix ''grep '' p" and "\<not> prefix ''egrep '' p"
  shows "keep_line lib (Some p) l = Inr True"
  using assms by (simp add: keep_line_def)

text \<open>The path through \<^verbatim>\<open>COMMAND_MAP\<close> does filter: with \<^verbatim>\<open>grep\<close> the lines that
  contain the term are printed, in file order.\<close>

lemma keep_line_grep:
  "p = ''grep '' @ t \<Longrightarrow> keep_line lib (Some p) l = Inr (sublist (strip t) l)"
  by (simp add: keep_line_def)

lemma stream_lines_grep:
  assumes "p = ''grep '' @ t"
  shows "stream_lines lib (Some p) ls =
     (map (\<lambda>l. Print (rstrip l)) (filter (sublist (strip t)) ls), None)"
  by (induction ls) (simp_all add: keep_line_grep [OF assms] Let_def)

text \<open>
  C4, as stated: a filter that is not one of the four keywords is rejected with a report.
  Nothing in the script rejects a filter: \<^verbatim>\<open>stream_file\<close> tests the two prefixes and
  otherwise prints every line.
\<close>

theorem unknown_filter_streams_all:
  "exec_line sample_lib sample_diag ''lsblk | wc -l'' =
     ([Print ''sda 8:0 disk'', Print ''sdb 8:16 disk''], Continue)"
  by code_simp

text \<open>
  C4, amended: for a line with a pipe whose filter text is neither \<^verbatim>\<open>less\<close> nor
  \<^verbatim>\<open>more\<close> and begins with neither \<^verbatim>\<open>grep\<close> nor \<^verbatim>\<open>egrep\<close> followed by a
  blank, a command of the alias table whose artifact exists prints every line of the artifact,
  trailing whitespace removed, and the loop goes on: the filter text is ignored.
\<close>

theorem unknown_filter_ignored:
  assumes "strip raw \<noteq> []"
    and "strip raw \<notin> {''exit'', ''quit'', ''pxctl'', ''help'', ''?'', ''pxctl help'', ''pxctl --help''}"
    and "split_pipe (strip raw) = (left, Some p)"
    and "parse_command left = (base_cmd, is_json, vol_id)"
    and "p \<noteq> ''less''" and "p \<noteq> ''more''"
    and "\<not> prefix ''grep '' p" and "\<not> prefix ''egrep '' p"
    and "map_of COMMAND_MAP base_cmd = Some (loc, fname)"
    and "misc b = Some d"
    and "d fname = Some t"
  shows "exec_line lib b raw = (map (\<lambda>l. Print (rstrip l)) (readlines t), Continue)"
proof -
  have s: "stream_lines lib (Some p) (readlines t) =
           (map (\<lambda>l. Print (rstrip l)) (readlines t), None)"
    by (rule stream_lines_all) (rule keep_line_other [OF assms(7,8)])
  have "exec_line lib b raw = dispatch lib b base_cmd is_json vol_id (Some p)"
    using assms(1-4) by (rule exec_line_dispatch)
  also have "\<dots> = (map (\<lambda>l. Print (rstrip l)) (readlines t), Continue)"
    using assms(5,6,10,11)
    by (simp add: dispatch_command_map [OF assms(9)] path_join_def stream_file_def open_file_def
        pager_of_def finish_def s)
  finally show ?thesis .
qed

theorem unknown_filter_ignored_witness:
  "exec_line sample_lib sample_diag ''lsblk | sort'' =
     ([Print ''sda 8:0 disk'', Print ''sdb 8:16 disk''], Continue)"
proof -
  have 1: "strip ''lsblk | sort'' \<noteq> []" by code_simp
  have 2: "strip ''lsblk | sort'' \<notin>
      {''exit'', ''quit'', ''pxctl'', ''help'', ''?'', ''pxctl help'', ''pxctl --help''}" by code_simp
  have 3: "split_pipe (strip ''lsblk | sort'') = (''lsblk'', Some ''sort'')" by code_simp
  have 4: "parse_command ''lsblk'' = (''lsblk'', False, None)" by code_simp
  have 5: "''sort'' \<noteq> ''less''" "''sort'' \<noteq> ''more''"
    "\<not> prefix ''grep '' ''sort''" "\<not> prefix ''egrep '' ''sort''" by simp_all
  have 6: "map_of COMMAND_MAP ''lsblk'' = Some (''misc'', ''lsblk.out'')" by code_simp
  have 7: "misc sample_diag = Some (map_of
        [(''lsblk.out'', text_of [''sda 8:0 disk'', ''sdb 8:16 disk'']),
         (''date.out'', text_of [''Mon Jan  1 00:00:00 UTC 2024'']),
         (''px-alerts.out'', text_of [''no alerts''])])"
    by (simp add: sample_diag_def)
  have 8: "map_of
        [(''lsblk.out'', text_of [''sda 8:0 disk'', ''sdb 8:16 disk'']),
         (''date.out'', text_of [''Mon Jan  1 00:00:00 UTC 2024'']),
         (''px-alerts.out'', text_of [''no alerts''])] ''lsblk.out'' =
        Some (text_of [''sda 8:0 disk'', ''sdb 8:16 disk''])"
    by simp
  have 9: "map (\<lambda>l. Print (rstrip l)) (readlines (text_of [''sda 8:0 disk'', ''sdb 8:16 disk''])) =
        [Print ''sda 8:0 disk'', Print ''sdb 8:16 disk'']" by code_simp
  from unknown_filter_ignored [OF 1 2 3 4 5 6 7 8, of sample_lib] 9
  show ?thesis by simp
qed

text \<open>
  C6. The claim is that \<^verbatim>\<open>| grep term\<close> filters the output of every command that
  streams text, config show and cluster UUID show included. The command-map branch passes the
  filter to \<^verbatim>\<open>stream_file\<close> (line 261) and filters; the config show and cluster UUID
  show branches call \<^verbatim>\<open>stream_file\<close> without it (lines 251 and 255): the whole
  document is printed, the closing brace too, which does not contain the term.
\<close>

theorem config_show_ignores_grep:
  "exec_line sample_lib sample_diag ''pxctl config show | grep clusterid'' =
     exec_line sample_lib sample_diag ''pxctl config show''
   \<and> length (fst (exec_line sample_lib sample_diag ''pxctl config show | grep clusterid'')) = 4
   \<and> Print ''}'' \<in> set (fst (exec_line sample_lib sample_diag ''pxctl config show | grep clusterid''))
   \<and> exec_line sample_lib sample_diag ''lsblk | grep sdb'' = ([Print ''sdb 8:16 disk''], Continue)"
  by code_simp

section \<open>The alerts entries with the flag in the key\<close>

lemma base_without_flag: "''-j'' \<notin> set (str_split (fst (parse_command cmd)))"
  by (simp add: base_tokens)

lemma base_not_flag_key:
  "fst (parse_command cmd) \<noteq> ''pxctl alerts show -j''"
  "fst (parse_command cmd) \<noteq> ''pxctl a s -j''"
proof -
  have 1: "''-j'' \<in> set (str_split ''pxctl alerts show -j'')" by code_simp
  have 2: "''-j'' \<in> set (str_split ''pxctl a s -j'')" by code_simp
  from 1 base_without_flag [of cmd] show "fst (parse_command cmd) \<noteq> ''pxctl alerts show -j''"
    by metis
  from 2 base_without_flag [of cmd] show "fst (parse_command cmd) \<noteq> ''pxctl a s -j''"
    by metis
qed

lemma alerts_show_out_keys:
  assumes "map_of COMMAND_MAP base_cmd = Some (loc, ''px-alerts-show.out'')"
  shows "base_cmd = ''pxctl alerts show -j'' \<or> base_cmd = ''pxctl a s -j''"
  using assms by (auto simp add: COMMAND_MAP_def split: if_splits)

lemma dispatch_without_alerts_show_out:
  assumes "base_cmd \<noteq> ''pxctl alerts show -j''" and "base_cmd \<noteq> ''pxctl a s -j''"
  shows "dispatch lib \<lparr>misc = Some (d(''px-alerts-show.out'' := x)), etc = e, px_volumes = v\<rparr>
           base_cmd is_json vol_id pipe =
         dispatch lib \<lparr>misc = Some d, etc = e, px_volumes = v\<rparr> base_cmd is_json vol_id pipe"
proof (cases "map_of COMMAND_MAP base_cmd")
  case None
  have l: "load_volumes \<lparr>misc = Some (d(''px-alerts-show.out'' := x)), etc = e, px_volumes = v\<rparr> =
           load_volumes \<lparr>misc = Some d, etc = e, px_volumes = v\<rparr>"
    by (simp add: load_volumes_def path_join_def bind_def)
  have vl: "volume_list lib \<lparr>misc = Some (d(''px-alerts-show.out'' := x)), etc = e, px_volumes = v\<rparr> =
            volume_list lib \<lparr>misc = Some d, etc = e, px_volumes = v\<rparr>"
    by (simp only: volume_list_def l)
  from None show ?thesis
    unfolding dispatch_def l vl by simp
next
  case (Some entry)
  obtain loc fname where entry: "entry = (loc, fname)" by (cases entry)
  with Some have m: "map_of COMMAND_MAP base_cmd = Some (loc, fname)" by simp
  have "fname \<noteq> ''px-alerts-show.out''"
    using alerts_show_out_keys [of base_cmd loc] m assms by blast
  then have o: "open_file (d(''px-alerts-show.out'' := x), fname) = open_file (d, fname)"
    by (simp add: open_file_def)
  have "stream_file lib (d(''px-alerts-show.out'' := x), fname) pipe =
        stream_file lib (d, fname) pipe"
    by (simp only: stream_file_def o)
  then show ?thesis
    by (simp add: dispatch_command_map [OF m] path_join_def)
qed

lemma exec_line_without_alerts_show_out:
  "exec_line lib \<lparr>misc = Some (d(''px-alerts-show.out'' := x)), etc = e, px_volumes = v\<rparr> raw =
   exec_line lib \<lparr>misc = Some d, etc = e, px_volumes = v\<rparr> raw"
proof -
  have "(case parse_command left of (bc, js, vi) \<Rightarrow>
           dispatch lib \<lparr>misc = Some (d(''px-alerts-show.out'' := x)), etc = e, px_volumes = v\<rparr>
             bc js vi pipe) =
        (case parse_command left of (bc, js, vi) \<Rightarrow>
           dispatch lib \<lparr>misc = Some d, etc = e, px_volumes = v\<rparr> bc js vi pipe)"
    for left pipe
  proof (cases "parse_command left")
    case (fields bc js vi)
    then have "bc = fst (parse_command left)" by simp
    then have "bc \<noteq> ''pxctl alerts show -j''" "bc \<noteq> ''pxctl a s -j''"
      using base_not_flag_key [of left] by simp_all
    then show ?thesis
      using fields by (simp add: dispatch_without_alerts_show_out)
  qed
  then show ?thesis by (simp add: exec_line_def Let_def split: prod.split)
qed

lemma main_loop_without_alerts_show_out:
  "main_loop lib \<lparr>misc = Some (d(''px-alerts-show.out'' := x)), etc = e, px_volumes = v\<rparr> input =
   main_loop lib \<lparr>misc = Some d, etc = e, px_volumes = v\<rparr> input"
proof (induction input)
  case Nil
  show ?case by (simp only: main_loop.simps)
next
  case (Cons raw rest)
  show ?case by (simp only: main_loop.simps exec_line_without_alerts_show_out Cons.IH)
qed

text \<open>
  C9. No input line selects the entries of \<^verbatim>\<open>COMMAND_MAP\<close> whose keys end in
  \<^verbatim>\<open>-j\<close>: the base command that \<^verbatim>\<open>parse_command\<close> returns is never one of the
  two keys, so the lookup never yields \<^verbatim>\<open>px-alerts-show.out\<close>. The line
  \<^verbatim>\<open>pxctl alerts show -j\<close> has the base \<^verbatim>\<open>pxctl alerts show\<close>, whose entry is
  \<^verbatim>\<open>px-alerts.out\<close> under \<^verbatim>\<open>misc\<close>, and does what the line without the flag does.
  The artifact \<^verbatim>\<open>px-alerts-show.out\<close> is never read: whatever the input, a session is
  the same whether the file is there, with whatever contents (\<open>x\<close>), or not.
\<close>

theorem alerts_show_out_unreachable:
  "fst (parse_command cmd) \<noteq> ''pxctl alerts show -j''
   \<and> fst (parse_command cmd) \<noteq> ''pxctl a s -j''
   \<and> map_of COMMAND_MAP (fst (parse_command cmd)) \<noteq> Some (''misc'', ''px-alerts-show.out'')
   \<and> parse_command ''pxctl alerts show -j'' = (''pxctl alerts show'', True, None)
   \<and> map_of COMMAND_MAP ''pxctl alerts show'' = Some (''misc'', ''px-alerts.out'')
   \<and> exec_line lib b ''pxctl alerts show -j'' = exec_line lib b ''pxctl alerts show''
   \<and> main_loop lib \<lparr>misc = Some (d(''px-alerts-show.out'' := x)), etc = e, px_volumes = v\<rparr> input =
       main_loop lib \<lparr>misc = Some d, etc = e, px_volumes = v\<rparr> input"
proof -
  have k: "map_of COMMAND_MAP (fst (parse_command cmd)) \<noteq> Some (''misc'', ''px-alerts-show.out'')"
    using alerts_show_out_keys [of "fst (parse_command cmd)" "''misc''"] base_not_flag_key [of cmd]
    by blast
  have p: "parse_command ''pxctl alerts show -j'' = (''pxctl alerts show'', True, None)"
    by code_simp
  have m: "map_of COMMAND_MAP ''pxctl alerts show'' = Some (''misc'', ''px-alerts.out'')"
    by code_simp
  have s: "strip ''pxctl alerts show -j'' = ''pxctl alerts show -j''"
    "split_pipe ''pxctl alerts show -j'' = (''pxctl alerts show -j'', None)"
    "strip ''pxctl alerts show'' = ''pxctl alerts show''"
    "split_pipe ''pxctl alerts show'' = (''pxctl alerts show'', None)"
    "parse_command ''pxctl alerts show'' = (''pxctl alerts show'', False, None)"
    by code_simp+
  have 1: "exec_line lib b ''pxctl alerts show -j'' =
           dispatch lib b ''pxctl alerts show'' True None None"
    by (rule exec_line_dispatch [where left = "''pxctl alerts show -j''"]) (simp_all add: s p)
  have 2: "exec_line lib b ''pxctl alerts show'' =
           dispatch lib b ''pxctl alerts show'' False None None"
    by (rule exec_line_dispatch [where left = "''pxctl alerts show''"]) (simp_all add: s)
  have x: "exec_line lib b ''pxctl alerts show -j'' = exec_line lib b ''pxctl alerts show''"
    unfolding 1 2 by (simp add: dispatch_command_map [OF m])
  from base_not_flag_key [of cmd] k p m x main_loop_without_alerts_show_out [of lib d x e v input]
  show ?thesis by (intro conjI)
qed

section \<open>The \<^verbatim>\<open>attached_on\<close> field\<close>

lemma run_prints_length: "length (fst (run_prints ms)) \<le> length ms"
proof (induction ms)
  case Nil
  show ?case by simp
next
  case (Cons m ms)
  then show ?case by (cases m) (simp_all add: Let_def)
qed

text \<open>Every line that was printed comes from an entry that did not raise.\<close>

lemma run_prints_nth:
  "i < length (fst (run_prints ms)) \<Longrightarrow> \<exists>l. ms ! i = Inr l \<and> fst (run_prints ms) ! i = Print l"
proof (induction ms arbitrary: i)
  case Nil
  then show ?case by simp
next
  case (Cons m ms)
  show ?case
  proof (cases m)
    case (Inl e)
    with Cons.prems show ?thesis by simp
  next
    case (Inr l)
    show ?thesis
    proof (cases i)
      case 0
      with Inr show ?thesis by (simp add: Let_def)
    next
      case (Suc j)
      with Inr Cons.prems have "j < length (fst (run_prints ms))" by (simp add: Let_def)
      then have "\<exists>l. ms ! j = Inr l \<and> fst (run_prints ms) ! j = Print l" by (rule Cons.IH)
      with Inr Suc show ?thesis by (simp add: Let_def)
    qed
  qed
qed

text \<open>Printing stops before the end only at an entry that raises, and with its error.\<close>

lemma run_prints_stop:
  "length (fst (run_prints ms)) < length ms \<Longrightarrow>
   \<exists>e. ms ! length (fst (run_prints ms)) = Inl e \<and> snd (run_prints ms) = Some e"
proof (induction ms)
  case Nil
  then show ?case by simp
next
  case (Cons m ms)
  show ?case
  proof (cases m)
    case (Inl e)
    then show ?thesis by simp
  next
    case (Inr l)
    with Cons.prems have "length (fst (run_prints ms)) < length ms" by (simp add: Let_def)
    then have "\<exists>e. ms ! length (fst (run_prints ms)) = Inl e \<and> snd (run_prints ms) = Some e"
      by (rule Cons.IH)
    with Inr show ?thesis by (simp add: Let_def)
  qed
qed

lemma run_prints_rows:
  "run_prints (map Inr ls @ Inl e # rest) = (map Print ls, Some e)"
  by (induction ls) (simp_all add: Let_def)

lemma inspect_lines_state:
  "inspect_lines lib v ! 9 =
     bind (attach_state ''attached: '' v) (\<lambda>x. Inr (''State                    :  '' @ x))"
  "9 < length (inspect_lines lib v)"
  by (simp_all add: inspect_lines_def)

lemma attach_state_absent:
  "map_of kvs ''attached_on'' = None \<Longrightarrow>
   attach_state pre (JObj kvs) = Inl (KeyError ''attached_on'')"
  by (simp add: attach_state_def bind_def)

lemma attach_state_falsy:
  "map_of kvs ''attached_on'' = Some a \<Longrightarrow> \<not> truthy a \<Longrightarrow>
   attach_state pre (JObj kvs) = Inr ''detached''"
  by (simp add: attach_state_def bind_def)

lemma bind_Inr: "bind m f = Inr y \<longleftrightarrow> (\<exists>x. m = Inr x \<and> f x = Inr y)"
  by (cases m) (simp_all add: bind_def)

lemma sequence_last:
  "sequence ms = Inr cols \<Longrightarrow> ms \<noteq> [] \<Longrightarrow> cols \<noteq> [] \<and> last ms = Inr (last cols)"
proof (induction ms arbitrary: cols)
  case Nil
  then show ?case by simp
next
  case (Cons m ms)
  from Cons.prems(1) obtain x xs where x: "m = Inr x" "sequence ms = Inr xs" "cols = x # xs"
    by (auto simp add: bind_Inr)
  show ?case
  proof (cases "ms = []")
    case True
    with x show ?thesis by simp
  next
    case False
    with Cons.IH [OF x(2)] have "xs \<noteq> [] \<and> last ms = Inr (last xs)" by simp
    with x False show ?thesis by simp
  qed
qed

lemma str_join_last: "cols \<noteq> [] \<Longrightarrow> suffix (last cols) (str_join sep cols)"
proof (induction sep cols rule: str_join.induct)
  case (1 sep)
  then show ?case by simp
next
  case (2 sep p)
  show ?case by simp
next
  case (3 sep p q ps)
  then have "suffix (last (q # ps)) (str_join sep (q # ps))" by simp
  then have "suffix (last (q # ps)) (p @ sep @ str_join sep (q # ps))"
    by (intro suffix_appendI)
  then show ?case by simp
qed

lemma volume_row_state:
  assumes "attach_state ''attached on '' v = Inr st"
    and "volume_row lib v = Inr r"
  shows "\<exists>s. subscript v ''status'' = Inr s \<and> suffix (py_str s @ '' - '' @ st) r"
proof -
  from assms(2) [unfolded volume_row_def bind_Inr] assms(1)
  obtain ms cols where c: "sequence ms = Inr cols" "r = str_join '' '' cols" "ms \<noteq> []"
    "last ms = bind (subscript v ''status'') (\<lambda>x. Inr (py_str x @ '' - '' @ st))"
    by (elim exE conjE) (auto simp del: sequence.simps)
  from sequence_last [OF c(1,3)] have l: "cols \<noteq> []" "last ms = Inr (last cols)" by simp_all
  from l(2) c(4) obtain s where s: "subscript v ''status'' = Inr s"
    "last cols = py_str s @ '' - '' @ st"
    by (auto simp add: bind_Inr)
  from str_join_last [OF l(1), of "'' ''"] c(2) s(2)
  have "suffix (py_str s @ '' - '' @ st) r" by simp
  with s(1) show ?thesis by blast
qed

text \<open>
  C10. Both renderers read \<^verbatim>\<open>v["attached_on"]\<close> by subscript. For a record in which
  the key is present with \<^verbatim>\<open>null\<close> or the empty string, the state is
  \<^verbatim>\<open>detached\<close> in both: every row that the table renders for such a record ends
  with its status followed by \<^verbatim>\<open> - detached\<close>, and the tenth line of the detail
  view, when it is reached, is the \<^verbatim>\<open>State\<close> line saying so. For a record without
  the key, the row of the table is not rendered: the subscript raises \<^verbatim>\<open>KeyError\<close>
  before any field is formatted, so a table whose earlier rows render stops at this record with
  that error, having printed the header and the earlier rows and nothing else. The detail view
  never completes: at most the nine lines before \<^verbatim>\<open>State\<close> are printed, and when
  all nine are, the error is that \<^verbatim>\<open>KeyError\<close>.
\<close>

theorem attached_on_direct_access:
  assumes "map_of kvs ''attached_on'' = None"
    and "map_of kvs' ''attached_on'' = Some a"
    and "a = JNull \<or> a = JStr []"
    and "misc b = Some d"
    and "px_volumes b = Dataset (JList (pre @ JObj kvs # post))"
    and "\<forall>v\<in>set pre. \<exists>r. volume_row lib v = Inr r"
  shows "attach_state ''attached on '' (JObj kvs') = Inr ''detached''
       \<and> attach_state ''attached: '' (JObj kvs') = Inr ''detached''
       \<and> (\<forall>r. volume_row lib (JObj kvs') = Inr r \<longrightarrow>
            (\<exists>s. map_of kvs' ''status'' = Some s \<and> suffix (py_str s @ '' - detached'') r))
       \<and> (9 < length (fst (volume_inspect lib (JObj kvs'))) \<longrightarrow>
            fst (volume_inspect lib (JObj kvs')) ! 9 = Print ''State                    :  detached'')
       \<and> volume_row lib (JObj kvs) = Inl (KeyError ''attached_on'')
       \<and> snd (volume_list lib b) = Some (KeyError ''attached_on'')
       \<and> fst (volume_list lib b) =
            Print list_header # map (\<lambda>v. Print (projr (volume_row lib v))) pre
       \<and> length (fst (volume_list lib b)) = Suc (length pre)
       \<and> snd (volume_inspect lib (JObj kvs)) \<noteq> None
       \<and> length (fst (volume_inspect lib (JObj kvs))) \<le> 9
       \<and> (length (fst (volume_inspect lib (JObj kvs))) = 9 \<longrightarrow>
            snd (volume_inspect lib (JObj kvs)) = Some (KeyError ''attached_on''))"
proof -
  have falsy: "\<not> truthy a" using assms(3) by auto
  have s1: "attach_state ''attached on '' (JObj kvs') = Inr ''detached''"
    using assms(2) falsy by (rule attach_state_falsy)
  have s2: "attach_state ''attached: '' (JObj kvs') = Inr ''detached''"
    using assms(2) falsy by (rule attach_state_falsy)
  have rowd: "\<forall>r. volume_row lib (JObj kvs') = Inr r \<longrightarrow>
      (\<exists>s. map_of kvs' ''status'' = Some s \<and> suffix (py_str s @ '' - detached'') r)"
  proof (intro allI impI)
    fix r
    assume "volume_row lib (JObj kvs') = Inr r"
    from volume_row_state [OF s1 this] obtain s
      where s: "subscript (JObj kvs') ''status'' = Inr s"
        and x: "suffix (py_str s @ '' - '' @ ''detached'') r"
      by blast
    from s have "map_of kvs' ''status'' = Some s" by (simp split: option.splits)
    with x show "\<exists>s. map_of kvs' ''status'' = Some s \<and> suffix (py_str s @ '' - detached'') r"
      by auto
  qed
  have s3: "fst (volume_inspect lib (JObj kvs')) ! 9 = Print ''State                    :  detached''"
    if "9 < length (fst (volume_inspect lib (JObj kvs')))"
  proof -
    from that obtain l where l: "inspect_lines lib (JObj kvs') ! 9 = Inr l"
      "fst (run_prints (inspect_lines lib (JObj kvs'))) ! 9 = Print l"
      using run_prints_nth [of 9 "inspect_lines lib (JObj kvs')"]
      unfolding volume_inspect_def by blast
    from l(1) have "l = ''State                    :  detached''"
      by (simp add: inspect_lines_state(1) s2 bind_def)
    with l(2) show ?thesis unfolding volume_inspect_def by simp
  qed
  have r: "volume_row lib (JObj kvs) = Inl (KeyError ''attached_on'')"
    using attach_state_absent [OF assms(1), of "''attached on ''"]
    by (simp add: volume_row_def bind_def)
  have rows: "map (volume_row lib) pre = map Inr (map (\<lambda>v. projr (volume_row lib v)) pre)"
    using assms(6) by (induction pre) auto
  have v0: "volume_list lib b =
        run_prints (Inr list_header # map (volume_row lib) (pre @ JObj kvs # post))"
    using assms(4,5)
    by (simp add: volume_list_def load_volumes_def path_join_def bind_def)
  have v1: "Inr list_header # map (volume_row lib) (pre @ JObj kvs # post) =
        map Inr (list_header # map (\<lambda>v. projr (volume_row lib v)) pre) @
        Inl (KeyError ''attached_on'') # map (volume_row lib) post"
    by (simp only: map_append list.map rows r append_Cons)
  have "volume_list lib b =
        run_prints (map Inr (list_header # map (\<lambda>v. projr (volume_row lib v)) pre) @
                    Inl (KeyError ''attached_on'') # map (volume_row lib) post)"
    by (simp only: v0 v1)
  then have vl: "volume_list lib b =
        (map Print (list_header # map (\<lambda>v. projr (volume_row lib v)) pre),
         Some (KeyError ''attached_on''))"
    by (simp only: run_prints_rows)
  have vf: "fst (volume_list lib b) =
        Print list_header # map (\<lambda>v. Print (projr (volume_row lib v))) pre"
    by (simp add: vl comp_def)
  have vn: "length (fst (volume_list lib b)) = Suc (length pre)"
    by (simp add: vl)
  have i9: "inspect_lines lib (JObj kvs) ! 9 = Inl (KeyError ''attached_on'')"
    using attach_state_absent [OF assms(1), of "''attached: ''"]
    by (simp add: inspect_lines_state(1) bind_def)
  have le: "length (fst (volume_inspect lib (JObj kvs))) \<le> 9"
  proof (rule ccontr)
    assume "\<not> length (fst (volume_inspect lib (JObj kvs))) \<le> 9"
    then have "9 < length (fst (run_prints (inspect_lines lib (JObj kvs))))"
      unfolding volume_inspect_def by simp
    then have "\<exists>l. inspect_lines lib (JObj kvs) ! 9 = Inr l \<and>
                   fst (run_prints (inspect_lines lib (JObj kvs))) ! 9 = Print l"
      by (rule run_prints_nth)
    with i9 show False by simp
  qed
  then have "length (fst (run_prints (inspect_lines lib (JObj kvs)))) <
             length (inspect_lines lib (JObj kvs))"
    using inspect_lines_state(2) [of lib "JObj kvs"] unfolding volume_inspect_def by simp
  then obtain e where e: "inspect_lines lib (JObj kvs) !
        length (fst (run_prints (inspect_lines lib (JObj kvs)))) = Inl e"
      "snd (run_prints (inspect_lines lib (JObj kvs))) = Some e"
    using run_prints_stop [of "inspect_lines lib (JObj kvs)"] by blast
  have ne: "snd (volume_inspect lib (JObj kvs)) \<noteq> None"
    using e(2) unfolding volume_inspect_def by simp
  have k: "snd (volume_inspect lib (JObj kvs)) = Some (KeyError ''attached_on'')"
    if "length (fst (volume_inspect lib (JObj kvs))) = 9"
    using that e i9 unfolding volume_inspect_def by simp
  from s3 k have c: "9 < length (fst (volume_inspect lib (JObj kvs'))) \<longrightarrow>
            fst (volume_inspect lib (JObj kvs')) ! 9 = Print ''State                    :  detached''"
    "length (fst (volume_inspect lib (JObj kvs))) = 9 \<longrightarrow>
            snd (volume_inspect lib (JObj kvs)) = Some (KeyError ''attached_on'')"
    by blast+
  have e: "snd (volume_list lib b) = Some (KeyError ''attached_on'')"
    by (simp add: vl)
  from s1 s2 rowd c(1) r e vf vn ne le c(2) show ?thesis by (intro conjI)
qed

theorem attached_on_direct_access_witness:
  "volume_row sample_lib vol_200 =
     Inr ''200                     data                                     1 KiB     1 no      no        no                    up - detached''
   \<and> suffix ''up - detached'' (projr (volume_row sample_lib vol_200))
   \<and> fst (volume_inspect sample_lib vol_200) ! 9 = Print ''State                    :  detached''
   \<and> volume_row sample_lib vol_300 = Inl (KeyError ''attached_on'')
   \<and> volume_list sample_lib (sample_diag\<lparr>px_volumes := Dataset (JList [vol_200, vol_300])\<rparr>) =
       ([Print list_header,
         Print ''200                     data                                     1 KiB     1 no      no        no                    up - detached''],
        Some (KeyError ''attached_on''))
   \<and> snd (volume_inspect sample_lib vol_300) = Some (KeyError ''attached_on'')"
proof -
  have 1: "map_of [(''id'', JStr ''300''),
           (''locator'', JObj [(''name'', JStr ''logs'')]),
           (''spec'', JObj [(''size'', JInt 2147483648), (''ha_level'', JInt 2)]),
           (''status'', JStr ''up'')] ''attached_on'' = None" by simp
  have 2: "map_of [(''id'', JStr ''200''),
           (''locator'', JObj [(''name'', JStr ''data'')]),
           (''spec'', JObj [(''size'', JInt 1024), (''ha_level'', JInt 1)]),
           (''status'', JStr ''up''),
           (''attached_on'', JNull)] ''attached_on'' = Some JNull" by simp
  have 3: "JNull = JNull \<or> JNull = JStr []" by simp
  have 4: "misc (sample_diag\<lparr>px_volumes := Dataset (JList [vol_200, vol_300])\<rparr>) = Some (map_of
        [(''lsblk.out'', text_of [''sda 8:0 disk'', ''sdb 8:16 disk'']),
         (''date.out'', text_of [''Mon Jan  1 00:00:00 UTC 2024'']),
         (''px-alerts.out'', text_of [''no alerts''])])"
    by (simp add: sample_diag_def)
  have 5: "px_volumes (sample_diag\<lparr>px_volumes := Dataset (JList [vol_200, vol_300])\<rparr>) =
        Dataset (JList ([vol_200] @ JObj [(''id'', JStr ''300''),
           (''locator'', JObj [(''name'', JStr ''logs'')]),
           (''spec'', JObj [(''size'', JInt 2147483648), (''ha_level'', JInt 2)]),
           (''status'', JStr ''up'')] # []))"
    by (simp add: vol_300_def)
  have row: "volume_row sample_lib vol_200 =
     Inr ''200                     data                                     1 KiB     1 no      no        no                    up - detached''"
    by code_simp
  then have 6: "\<forall>v\<in>set [vol_200]. \<exists>r. volume_row sample_lib v = Inr r"
    by simp
  have 7: "9 < length (fst (volume_inspect sample_lib vol_200))" by code_simp
  have 8: "length (fst (volume_inspect sample_lib vol_300)) = 9" by code_simp
  have 9: "map_of [(''id'', JStr ''200''),
           (''locator'', JObj [(''name'', JStr ''data'')]),
           (''spec'', JObj [(''size'', JInt 1024), (''ha_level'', JInt 1)]),
           (''status'', JStr ''up''),
           (''attached_on'', JNull)] ''status'' = Some (JStr ''up'')" by simp
  note t = attached_on_direct_access [OF 1 2 3 4 5 6, folded vol_200_def vol_300_def]
  from t row 9 have a: "suffix ''up - detached'' (projr (volume_row sample_lib vol_200))"
    by (auto simp add: vol_200_def)
  from t 7 have b: "fst (volume_inspect sample_lib vol_200) ! 9 =
      Print ''State                    :  detached''"
    by blast
  from t have c: "volume_row sample_lib vol_300 = Inl (KeyError ''attached_on'')"
    by blast
  from t row have d: "volume_list sample_lib
        (sample_diag\<lparr>px_volumes := Dataset (JList [vol_200, vol_300])\<rparr>) =
       ([Print list_header,
         Print ''200                     data                                     1 KiB     1 no      no        no                    up - detached''],
        Some (KeyError ''attached_on''))"
    by (simp add: prod_eq_iff)
  from t 8 have e: "snd (volume_inspect sample_lib vol_300) = Some (KeyError ''attached_on'')"
    by blast
  from row a b c d e show ?thesis by (intro conjI)
qed

end
